theory Spec2Isabelle
  imports Main "HOL-Library.AList" "HOL-Library.Product_Lexorder"
begin

section \<open>Characters and Python string operations\<close>

text \<open>
  Python \<open>str\<close> values are modelled as \<open>string\<close>. The characters below \<open>0x80\<close> are
  ASCII. The characters from \<open>0x80\<close> on stand for non-ASCII symbols that have no case and
  are neither white space, digits nor word characters; the three such symbols that the
  program itself writes are named here.
\<close>

definition en_dash :: char where
  "en_dash = CHR 0x96"

definition rsquo :: char where
  "rsquo = CHR 0x92"

definition degree_sign :: char where
  "degree_sign = CHR 0xB0"

definition uppers :: string where
  "uppers = ''ABCDEFGHIJKLMNOPQRSTUVWXYZ''"

definition lowers :: string where
  "lowers = ''abcdefghijklmnopqrstuvwxyz''"

definition digits :: string where
  "digits = ''0123456789''"

definition is_upper :: "char \<Rightarrow> bool" where
  "is_upper c = (c \<in> set uppers)"

definition is_lower :: "char \<Rightarrow> bool" where
  "is_lower c = (c \<in> set lowers)"

definition is_alpha :: "char \<Rightarrow> bool" where
  "is_alpha c = (is_upper c \<or> is_lower c)"

definition is_digit :: "char \<Rightarrow> bool" where
  "is_digit c = (c \<in> set digits)"

definition is_alnum :: "char \<Rightarrow> bool" where
  "is_alnum c = (is_alpha c \<or> is_digit c)"

text \<open>\<open>str.isspace\<close> and the regex class \<open>\s\<close> on ASCII: TAB, LF, VT, FF, CR, FS, GS, RS, US, SPACE.\<close>

definition is_space :: "char \<Rightarrow> bool" where
  "is_space c = (c \<in> set [CHR 0x09, CHR 0x0A, CHR 0x0B, CHR 0x0C, CHR 0x0D,
                           CHR 0x1C, CHR 0x1D, CHR 0x1E, CHR 0x1F, CHR 0x20])"

text \<open>The regex class \<open>\w\<close>.\<close>

definition is_word :: "char \<Rightarrow> bool" where
  "is_word c = (is_alnum c \<or> c = CHR ''_'')"

definition lower_chr :: "char \<Rightarrow> char" where
  "lower_chr c = (case map_of (zip uppers lowers) c of Some d \<Rightarrow> d | None \<Rightarrow> c)"

definition upper_chr :: "char \<Rightarrow> char" where
  "upper_chr c = (case map_of (zip lowers uppers) c of Some d \<Rightarrow> d | None \<Rightarrow> c)"

definition py_lower :: "string \<Rightarrow> string" where
  "py_lower s = map lower_chr s"

definition py_upper :: "string \<Rightarrow> string" where
  "py_upper s = map upper_chr s"

text \<open>\<open>s.capitalize()\<close>: first character upper-cased, the rest lower-cased.\<close>

definition py_capitalize :: "string \<Rightarrow> string" where
  "py_capitalize s = (case s of [] \<Rightarrow> [] | c # cs \<Rightarrow> upper_chr c # py_lower cs)"

text \<open>\<open>s.isupper()\<close>: some cased character, and no lower-case one; \<open>s.islower()\<close> dually.\<close>

definition py_isupper :: "string \<Rightarrow> bool" where
  "py_isupper s = ((\<exists>c \<in> set s. is_upper c) \<and> \<not> (\<exists>c \<in> set s. is_lower c))"

definition py_islower :: "string \<Rightarrow> bool" where
  "py_islower s = ((\<exists>c \<in> set s. is_lower c) \<and> \<not> (\<exists>c \<in> set s. is_upper c))"

text \<open>\<open>s.strip()\<close>, \<open>s.strip(chars)\<close>, \<open>s.rstrip(chars)\<close>.\<close>

definition strip_by :: "(char \<Rightarrow> bool) \<Rightarrow> string \<Rightarrow> string" where
  "strip_by f s = rev (dropWhile f (rev (dropWhile f s)))"

definition py_strip :: "string \<Rightarrow> string" where
  "py_strip s = strip_by is_space s"

definition py_strip_chars :: "string \<Rightarrow> string \<Rightarrow> string" where
  "py_strip_chars cs s = strip_by (\<lambda>c. c \<in> set cs) s"

definition py_rstrip_chars :: "string \<Rightarrow> string \<Rightarrow> string" where
  "py_rstrip_chars cs s = rev (dropWhile (\<lambda>c. c \<in> set cs) (rev s))"

text \<open>\<open>s.split()\<close>: the maximal runs of characters that are not white space.\<close>

fun split_aux :: "string \<Rightarrow> string \<Rightarrow> string list" where
  "split_aux cur [] = (if cur = [] then [] else [rev cur])"
| "split_aux cur (c # cs) =
     (if is_space c then (if cur = [] then split_aux [] cs else rev cur # split_aux [] cs)
      else split_aux (c # cur) cs)"

definition py_split :: "string \<Rightarrow> string list" where
  "py_split s = split_aux [] s"

text \<open>\<open>sep.join(xs)\<close>.\<close>

fun py_join :: "string \<Rightarrow> string list \<Rightarrow> string" where
  "py_join sep [] = []"
| "py_join sep [x] = x"
| "py_join sep (x # y # ys) = x @ sep @ py_join sep (y # ys)"

text \<open>\<open>s.startswith(p)\<close>, \<open>s.endswith(p)\<close> and \<open>p in s\<close>.\<close>

fun starts_with :: "string \<Rightarrow> string \<Rightarrow> bool" where
  "starts_with s [] = True"
| "starts_with [] (p # ps) = False"
| "starts_with (c # cs) (p # ps) = (c = p \<and> starts_with cs ps)"

definition ends_with :: "string \<Rightarrow> string \<Rightarrow> bool" where
  "ends_with s p = starts_with (rev s) (rev p)"

fun contains :: "string \<Rightarrow> string \<Rightarrow> bool" where
  "contains [] p = (p = [])"
| "contains (c # cs) p = (starts_with (c # cs) p \<or> contains cs p)"

text \<open>\<open>any(k in s for k in ks)\<close>.\<close>

definition contains_any :: "string \<Rightarrow> string list \<Rightarrow> bool" where
  "contains_any s ks = list_ex (contains s) ks"

text \<open>\<open>s.split(":", 1)[-1]\<close>: what follows the first colon, or all of \<open>s\<close> without one.\<close>

definition after_colon :: "string \<Rightarrow> string" where
  "after_colon s = (if CHR '':'' \<in> set s then tl (dropWhile (\<lambda>c. c \<noteq> CHR '':'') s) else s)"

text \<open>\<open>s.replace(a, b)\<close> for a non-empty \<open>a\<close>: leftmost occurrences, not overlapping.\<close>

fun replace_aux :: "nat \<Rightarrow> string \<Rightarrow> string \<Rightarrow> string \<Rightarrow> string" where
  "replace_aux skip a b [] = []"
| "replace_aux skip a b (c # cs) =
     (if 0 < skip then replace_aux (skip - 1) a b cs
      else if starts_with (c # cs) a then b @ replace_aux (length a - 1) a b cs
      else c # replace_aux 0 a b cs)"

definition py_replace :: "string \<Rightarrow> string \<Rightarrow> string \<Rightarrow> string" where
  "py_replace a b s = replace_aux 0 a b s"

section \<open>Regular expressions\<close>

text \<open>
  The patterns of the program are terms of \<open>rx\<close>; \<open>rx_run\<close> is a backtracking matcher in
  the order of Python's \<open>re\<close>: alternatives left to right, greedy repetitions longest
  first, lazy ones shortest first. Every repetition of the program's patterns ranges over
  a character class (\<open>Rep\<close>); a repeated group \<open>(?:r){1,2}\<close> is written \<open>Seq r (Opt r)\<close>.
  A pattern compiled with \<open>re.IGNORECASE\<close> is written with \<open>LitI\<close> and with classes that
  hold both cases.
\<close>

datatype rx =
    Eps
  | Cls "char \<Rightarrow> bool"
  | Lit string
  | LitI string
  | Seq rx rx
  | Alt rx rx
  | Opt rx
  | Rep "char \<Rightarrow> bool" nat "nat option" bool
  | Grp nat rx
  | Bol
  | Eol
  | Wb

type_synonym caps = "(nat \<times> string) list"

text \<open>
  A literal at the head of the subject: what is left of the subject and the last character
  read, or \<open>None\<close>. \<open>same_letter\<close> compares as \<open>re.IGNORECASE\<close> does.
\<close>

definition same_letter :: "char \<Rightarrow> char \<Rightarrow> bool" where
  "same_letter a b = (lower_chr a = lower_chr b)"

fun drop_prefix :: "(char \<Rightarrow> char \<Rightarrow> bool) \<Rightarrow> char option \<Rightarrow> string \<Rightarrow> string \<Rightarrow>
    (char option \<times> string) option" where
  "drop_prefix eq p [] s = Some (p, s)"
| "drop_prefix eq p (x # xs) [] = None"
| "drop_prefix eq p (x # xs) (y # ys) = (if eq x y then drop_prefix eq (Some y) xs ys else None)"

definition word_at :: "char option \<Rightarrow> bool" where
  "word_at p = (case p of None \<Rightarrow> False | Some c \<Rightarrow> is_word c)"

definition next_chr :: "string \<Rightarrow> char option" where
  "next_chr s = (case s of [] \<Rightarrow> None | c # _ \<Rightarrow> Some c)"

definition last_chr :: "char option \<Rightarrow> string \<Rightarrow> char option" where
  "last_chr p s = (if s = [] then p else Some (last s))"

text \<open>One count less of a bounded repetition.\<close>

definition dec_hi :: "nat option \<Rightarrow> nat option" where
  "dec_hi hi = (case hi of None \<Rightarrow> None | Some h \<Rightarrow> Some (h - 1))"

text \<open>
  What is still to be matched: patterns, the end of a group (with the subject as it was
  where the group began), and Python's rule that the match after an empty match of
  \<open>re.sub\<close> is not empty at the same position.
\<close>

datatype rx_item = R rx | EndG nat string | Adv string

primrec rx_size :: "rx \<Rightarrow> nat" where
  "rx_size Eps = 1"
| "rx_size (Cls f) = 1"
| "rx_size (Lit l) = 1"
| "rx_size (LitI l) = 1"
| "rx_size (Seq a b) = Suc (rx_size a + rx_size b)"
| "rx_size (Alt a b) = Suc (rx_size a + rx_size b)"
| "rx_size (Opt a) = Suc (rx_size a)"
| "rx_size (Rep f lo hi g) = 1"
| "rx_size (Grp n a) = Suc (Suc (rx_size a))"
| "rx_size Bol = 1"
| "rx_size Eol = 1"
| "rx_size Wb = 1"

primrec item_size :: "rx_item \<Rightarrow> nat" where
  "item_size (R r) = rx_size r"
| "item_size (EndG n s) = 1"
| "item_size (Adv s) = 1"

text \<open>
  \<open>rx_run k p s c\<close>: match the items \<open>k\<close> at the head of \<open>s\<close>, where \<open>p\<close> is the character
  before \<open>s\<close> (\<open>None\<close> at the start of the subject) and \<open>c\<close> the groups captured so far:
  what is left of the subject and the groups, for the first success in backtracking order.
\<close>

function rx_run :: "rx_item list \<Rightarrow> char option \<Rightarrow> string \<Rightarrow> caps \<Rightarrow> (string \<times> caps) option" where
  "rx_run [] p s c = Some (s, c)"
| "rx_run (EndG n s0 # k) p s c = rx_run k p s ((n, take (length s0 - length s) s0) # c)"
| "rx_run (Adv s0 # k) p s c = (if length s = length s0 then None else rx_run k p s c)"
| "rx_run (R Eps # k) p s c = rx_run k p s c"
| "rx_run (R (Cls f) # k) p s c =
     (case s of [] \<Rightarrow> None | x # xs \<Rightarrow> if f x then rx_run k (Some x) xs c else None)"
| "rx_run (R (Lit l) # k) p s c =
     (case drop_prefix (=) p l s of None \<Rightarrow> None | Some (p', s') \<Rightarrow> rx_run k p' s' c)"
| "rx_run (R (LitI l) # k) p s c =
     (case drop_prefix same_letter p l s of None \<Rightarrow> None | Some (p', s') \<Rightarrow> rx_run k p' s' c)"
| "rx_run (R (Seq a b) # k) p s c = rx_run (R a # R b # k) p s c"
| "rx_run (R (Alt a b) # k) p s c =
     (case rx_run (R a # k) p s c of Some r \<Rightarrow> Some r | None \<Rightarrow> rx_run (R b # k) p s c)"
| "rx_run (R (Opt a) # k) p s c =
     (case rx_run (R a # k) p s c of Some r \<Rightarrow> Some r | None \<Rightarrow> rx_run k p s c)"
| "rx_run (R (Rep f lo hi greedy) # k) p s c =
     (case s of
        [] \<Rightarrow> if lo = 0 then rx_run k p s c else None
      | x # xs \<Rightarrow>
          if f x \<and> hi \<noteq> Some 0 then
            (if 0 < lo then rx_run (R (Rep f (lo - 1) (dec_hi hi) greedy) # k) (Some x) xs c
             else if greedy then
               (case rx_run (R (Rep f 0 (dec_hi hi) greedy) # k) (Some x) xs c of
                  Some r \<Rightarrow> Some r
                | None \<Rightarrow> rx_run k p s c)
             else
               (case rx_run k p s c of
                  Some r \<Rightarrow> Some r
                | None \<Rightarrow> rx_run (R (Rep f 0 (dec_hi hi) greedy) # k) (Some x) xs c))
          else if lo = 0 then rx_run k p s c else None)"
| "rx_run (R (Grp n a) # k) p s c = rx_run (R a # EndG n s # k) p s c"
| "rx_run (R Bol # k) p s c = (if p = None then rx_run k p s c else None)"
| "rx_run (R Eol # k) p s c = (if s = [] \<or> s = [CHR 0x0A] then rx_run k p s c else None)"
| "rx_run (R Wb # k) p s c =
     (if word_at p \<noteq> word_at (next_chr s) then rx_run k p s c else None)"
  by pat_completeness auto
termination
  by (relation "measures [\<lambda>(k, p, s, c). sum_list (map item_size k), \<lambda>(k, p, s, c). length s]")
     auto

text \<open>
  One attempt at the current position: the matched text and the groups. With \<open>adv\<close> an
  empty match is refused (Python's rule after an empty match in \<open>re.sub\<close>).
\<close>

definition match_here :: "rx \<Rightarrow> bool \<Rightarrow> char option \<Rightarrow> string \<Rightarrow> (string \<times> caps) option" where
  "match_here r adv p s =
     (case rx_run (if adv then [R r, Adv s] else [R r]) p s [] of
        None \<Rightarrow> None
      | Some (s', c') \<Rightarrow> Some (take (length s - length s') s, c'))"

text \<open>\<open>re.match(r, s)\<close>: the matched text and the groups.\<close>

definition re_match :: "rx \<Rightarrow> string \<Rightarrow> (string \<times> caps) option" where
  "re_match r s = match_here r False None s"

text \<open>\<open>re.search\<close> from a position: the text skipped, the matched text and the groups.\<close>

fun search_from :: "rx \<Rightarrow> bool \<Rightarrow> char option \<Rightarrow> string \<Rightarrow> string \<Rightarrow>
    (string \<times> string \<times> caps) option" where
  "search_from r adv p pre [] =
     (case match_here r adv p [] of Some (m, c) \<Rightarrow> Some (rev pre, m, c) | None \<Rightarrow> None)"
| "search_from r adv p pre (x # xs) =
     (case match_here r adv p (x # xs) of
        Some (m, c) \<Rightarrow> Some (rev pre, m, c)
      | None \<Rightarrow> search_from r False (Some x) (x # pre) xs)"

definition re_search :: "rx \<Rightarrow> string \<Rightarrow> (string \<times> string \<times> caps) option" where
  "re_search r s = search_from r False None [] s"

definition re_found :: "rx \<Rightarrow> string \<Rightarrow> bool" where
  "re_found r s = (re_search r s \<noteq> None)"

definition re_matches :: "rx \<Rightarrow> string \<Rightarrow> bool" where
  "re_matches r s = (re_match r s \<noteq> None)"

text \<open>Group \<open>n\<close> of a match: \<open>None\<close> when the group took no part in it.\<close>

definition grp :: "caps \<Rightarrow> nat \<Rightarrow> string option" where
  "grp c n = map_of c n"

text \<open>Group \<open>n\<close> as a string: empty when the group took no part in the match.\<close>

definition grps :: "caps \<Rightarrow> nat \<Rightarrow> string" where
  "grps c n = (case map_of c n of Some v \<Rightarrow> v | None \<Rightarrow> [])"

definition seqs :: "rx list \<Rightarrow> rx" where
  "seqs rs = foldr Seq rs Eps"

definition alts :: "rx list \<Rightarrow> rx" where
  "alts rs = (case rs of [] \<Rightarrow> Eps | _ \<Rightarrow> foldr Alt (butlast rs) (last rs))"

definition star :: "(char \<Rightarrow> bool) \<Rightarrow> rx" where
  "star f = Rep f 0 None True"

definition plus :: "(char \<Rightarrow> bool) \<Rightarrow> rx" where
  "plus f = Rep f 1 None True"

definition chr_in :: "string \<Rightarrow> char \<Rightarrow> bool" where
  "chr_in cs c = (c \<in> set cs)"

text \<open>
  \<open>re.sub(r, f, s)\<close>: the leftmost matches, one after the other, each replaced by \<open>f\<close> of its
  text and groups. After an empty match the next attempt at the same position refuses an
  empty match, as CPython does.
\<close>

function re_sub_go :: "rx \<Rightarrow> (string \<Rightarrow> caps \<Rightarrow> string) \<Rightarrow> bool \<Rightarrow> char option \<Rightarrow> string \<Rightarrow> string" where
  "re_sub_go r f adv p s =
     (case search_from r adv p [] s of
        None \<Rightarrow> s
      | Some (pre, m, c) \<Rightarrow>
          if m = [] \<and> pre = [] then (if adv then s else f m c @ re_sub_go r f True p s)
          else if length pre + length m \<le> length s
          then pre @ f m c @
               re_sub_go r f (m = []) (last_chr p (pre @ m)) (drop (length pre + length m) s)
          else s)"
  by pat_completeness auto
termination
  by (relation "measure (\<lambda>(r, f, adv, p, s). 2 * length s + (if adv then 0 else 1))")
     (auto simp: neq_Nil_conv)

definition re_sub :: "rx \<Rightarrow> (string \<Rightarrow> caps \<Rightarrow> string) \<Rightarrow> string \<Rightarrow> string" where
  "re_sub r f s = re_sub_go r f False None s"

text \<open>\<open>re.sub(r, "", s)\<close>.\<close>

definition re_del :: "rx \<Rightarrow> string \<Rightarrow> string" where
  "re_del r s = re_sub r (\<lambda>m c. []) s"

section \<open>Event buffers and categories\<close>

text \<open>
  An event buffer is a Python \<open>dict\<close> from field names to strings: an association list in
  insertion order. \<open>AList.update\<close> keeps the place of a key that is present and appends a
  new one, as assignment to a \<open>dict\<close> does.
\<close>

type_synonym buffer = "(string \<times> string) list"

text \<open>\<open>buffer.get(k, d)\<close>.\<close>

definition bget :: "buffer \<Rightarrow> string \<Rightarrow> string \<Rightarrow> string" where
  "bget b k d = (case map_of b k of Some v \<Rightarrow> v | None \<Rightarrow> d)"

text \<open>The truth value of \<open>buffer.get(k)\<close>: the key is present with a non-empty string.\<close>

definition btrue :: "buffer \<Rightarrow> string \<Rightarrow> bool" where
  "btrue b k = (case map_of b k of Some v \<Rightarrow> v \<noteq> [] | None \<Rightarrow> False)"

text \<open>\<open>buffer[k] = v\<close> and \<open>buffer.pop(k, None)\<close>.\<close>

definition bput :: "buffer \<Rightarrow> string \<Rightarrow> string \<Rightarrow> buffer" where
  "bput b k v = AList.update k v b"

definition bpop :: "buffer \<Rightarrow> string \<Rightarrow> buffer" where
  "bpop b k = AList.delete k b"

definition SECTIONS :: "string list" where
  "SECTIONS =
    [''Incident Reports (IR) / Alarms'',
     ''Elevator Entrapment Incidents'',
     ''SPD Presence/Emergency Response on Site'',
     ''Property Damage'',
     ''Tenant Issues'',
     ''Retail Issues'',
     ''Transient Removal'',
     ''Key Service (Lock & Unlock)'',
     ''Loading Dock Access (Lock & Unlock)'',
     ''Fire Panel Bypass/Online'',
     ''AES Phone Calls'',
     ''Work Orders'',
     ''Janitorial'',
     ''Additional Information'']"

section \<open>The section classifier\<close>

text \<open>\<open>\bkey\s*(lock|unlock|service|issued|return|pickup|drop|set)?\b\<close>\<close>

definition rx_key_action :: rx where
  "rx_key_action =
     seqs [Wb, Lit ''key'', star is_space,
           Opt (Grp 1 (alts [Lit ''lock'', Lit ''unlock'', Lit ''service'', Lit ''issued'',
                             Lit ''return'', Lit ''pickup'', Lit ''drop'', Lit ''set''])),
           Wb]"

text \<open>\<open>\b(ir|incident)\s*#\s*\d+\<close>\<close>

definition rx_ir_number :: rx where
  "rx_ir_number =
     seqs [Wb, Grp 1 (Alt (Lit ''ir'') (Lit ''incident'')), star is_space, Lit ''#'',
           star is_space, plus is_digit]"

text \<open>Layer 1 of \<open>classify\<close>: the rules on an explicit category field, first match wins.\<close>

definition classify_explicit :: "buffer \<Rightarrow> string option" where
  "classify_explicit buffer =
     (case map_of buffer ''category'' of
        None \<Rightarrow> None
      | Some c \<Rightarrow>
         (let cat = py_lower c in
          if contains cat ''aes phone call'' then Some ''AES Phone Calls''
          else if (contains cat ''loading dock'' \<or> contains cat ''dock gate'')
                  \<and> \<not> contains (py_lower (bget buffer ''action'' [])) ''abm''
          then Some ''Loading Dock Access (Lock & Unlock)''
          else if contains cat ''key service'' \<or> contains cat ''key''
          then Some ''Key Service (Lock & Unlock)''
          else if contains cat ''bypass online'' \<or> contains cat ''fire panel''
                  \<or> contains cat ''fire system online'' \<or> contains cat ''until''
          then Some ''Fire Panel Bypass/Online''
          else if contains cat ''transient'' then Some ''Transient Removal''
          else if contains cat ''work order'' then Some ''Work Orders''
          else if contains cat ''retail'' then Some ''Retail Issues''
          else if contains cat ''incident report'' \<or> contains cat ''alarm''
          then Some ''Incident Reports (IR) / Alarms''
          else if contains cat ''janitorial'' then Some ''Janitorial''
          else if contains cat ''other/miscellaneous'' then Some ''Additional Information''
          else None))"

text \<open>The text that layer 2 tests: the labels, in the order the set yields them, then four fields.\<close>

definition classify_text :: "buffer \<Rightarrow> string list \<Rightarrow> string" where
  "classify_text buffer labels =
     py_lower (py_join '' '' (labels @ [bget buffer ''action'' [], bget buffer ''company'' [],
                                        bget buffer ''location'' [], bget buffer ''category'' []]))"

text \<open>The strong incident-report signals of layer 2.\<close>

definition strong_ir_signal :: "string \<Rightarrow> bool" where
  "strong_ir_signal txt =
     (contains txt ''incident report'' \<or> re_found rx_ir_number txt
      \<or> contains_any txt [''police'', ''911'', ''injury'', ''assault'', ''theft'', ''robbery''])"

text \<open>Layer 2 of \<open>classify\<close>: the heuristics on the full text, in the source's order.\<close>

definition classify_heuristic :: "buffer \<Rightarrow> string \<Rightarrow> string" where
  "classify_heuristic buffer txt =
     (let tenant_kw = [''issue'', ''concern'', ''complaint'', ''problem'',
                       ''request'', ''notify'', ''notified'', ''reported''] in
      if contains_any txt [''elevator entrapment incident'', ''stuck in elevator'',
            ''elevator incident'', ''got stuck in cap'', ''doors stayed closed'',
            ''kone technician'', ''otis elevator'']
      then ''Elevator Entrapment Incidents''
      else if contains txt ''tenant'' \<and> contains_any txt tenant_kw
              \<and> \<not> contains_any txt [''elevator'', ''entrapment'', ''stuck in elevator'',
                                       ''kone'', ''otis'']
      then ''Tenant Issues''
      else if contains_any txt [''damage'', ''damaged'', ''bent'', ''broken'', ''crack'', ''dent'',
                 ''unable to close'', ''hit'', ''struck'', ''collision'', ''impact'']
              \<and> contains_any txt [''gate'', ''door'', ''frame'', ''lock'', ''glass'',
                                   ''loading dock'', ''dock gate'']
      then ''Property Damage''
      else if (contains txt ''elevator'' \<or> contains txt ''entrapment''
               \<or> contains txt ''stuck in elevator'') \<and> \<not> contains txt ''tenant''
      then ''Elevator Entrapment Incidents''
      else if contains_any txt [''spd presence/emergency response on site'', ''spd presence'',
                 ''emergency response on site'', ''spd response'', ''sfd medics'', ''911 called'',
                 ''police responded'', ''medical emergency on site'', ''officer contacted spd'',
                 ''security called 911'', ''security called spd'']
      then ''SPD Presence/Emergency Response on Site''
      else if (contains txt ''spd'' \<and> contains txt ''response'')
              \<or> contains txt ''emergency response on site''
      then ''SPD Presence/Emergency Response on Site''
      else if contains txt ''tenant'' \<and> contains_any txt tenant_kw
              \<and> \<not> contains_any txt [''elevator'', ''entrapment'', ''stuck in elevator'']
      then ''Tenant Issues''
      else if contains txt ''aes'' \<or> contains txt ''phone call'' then ''AES Phone Calls''
      else if (contains txt ''loading dock'' \<or> contains txt ''dock gate'')
              \<and> \<not> contains_any txt [''abm notified'', ''upload picture'']
      then ''Loading Dock Access (Lock & Unlock)''
      else if contains txt ''key service'' \<or> re_found rx_key_action txt
      then ''Key Service (Lock & Unlock)''
      else if contains_any txt [''panel'', ''bypass'', ''trbl'', ''supv'', ''fire alarm'',
                                ''alarm test'', ''hold'']
      then ''Fire Panel Bypass/Online''
      else if contains txt ''transient'' \<or> contains txt ''trespass''
              \<or> (contains txt ''removed'' \<and> contains txt ''person'')
      then ''Transient Removal''
      else if contains txt ''work order'' \<or> contains txt ''building engines''
      then ''Work Orders''
      else if strong_ir_signal txt then ''Incident Reports (IR) / Alarms''
      else if py_lower (bget buffer ''category'' []) \<in> set [''janitorial'', ''seattle ambassadors'']
              \<or> contains_any txt [''janitorial'', ''abm notified'', ''upload picture'', ''abm'',
                    ''clean'', ''trash'', ''garbage'', ''spill'', ''vacuum'', ''mop'', ''sweep'',
                    ''ambassador'', ''mid call'', ''mid dispatch'', ''seattle ambassadors'']
      then ''Janitorial''
      else ''Unclassified'')"

definition classify :: "buffer \<Rightarrow> string list \<Rightarrow> string" where
  "classify buffer labels =
     (case classify_explicit buffer of
        Some sec \<Rightarrow> sec
      | None \<Rightarrow> classify_heuristic buffer (classify_text buffer labels))"

section \<open>Officer names\<close>

text \<open>\<open>^(Officer|S/O)\s+\<close> with \<open>re.IGNORECASE\<close>\<close>

definition rx_officer_prefix :: rx where
  "rx_officer_prefix = seqs [Bol, Grp 1 (Alt (LitI ''Officer'') (LitI ''S/O'')), plus is_space]"

text \<open>The name inside the markup that \<open>bold_officer\<close> builds.\<close>

definition officer_name :: "string \<Rightarrow> string" where
  "officer_name n =
     (let parts = py_split (re_del rx_officer_prefix n) in
      case parts of
        [first, second] \<Rightarrow>
          if py_isupper first \<and> py_isupper (take 1 second) \<and> py_islower (drop 1 second)
          then py_capitalize second @ '' '' @ py_capitalize first
          else py_capitalize first @ '' '' @ py_capitalize second
      | _ \<Rightarrow> py_join '' '' (map py_capitalize parts))"

definition bold_officer :: "string \<Rightarrow> string" where
  "bold_officer name =
     (let n = py_strip name in
      if n = [] then [] else ''<b>Officer '' @ officer_name n @ ''</b>'')"

section \<open>Numbers in text\<close>

text \<open>Python's integers are \<open>int\<close>.\<close>

definition digit_chr :: "int \<Rightarrow> char" where
  "digit_chr n = digits ! nat (n mod 10)"

text \<open>\<open>str(n)\<close> for \<open>n\<close> from 0 on, and for any integer.\<close>

function show_pos :: "int \<Rightarrow> string" where
  "show_pos n = (if n < 10 then [digit_chr n] else show_pos (n div 10) @ [digit_chr n])"
  by pat_completeness auto
termination
  by (relation "measure nat") auto

definition show_int :: "int \<Rightarrow> string" where
  "show_int n = (if n < 0 then CHR ''-'' # show_pos (- n) else show_pos n)"

text \<open>\<open>f"{n:02d}"\<close>: at least two characters, padded with a zero.\<close>

definition fmt_02d :: "int \<Rightarrow> string" where
  "fmt_02d n = (if 0 \<le> n \<and> n < 10 then CHR ''0'' # show_int n else show_int n)"

definition digit_val :: "char \<Rightarrow> int" where
  "digit_val c = (case map_of (zip digits [0, 1, 2, 3, 4, 5, 6, 7, 8, 9]) c of
                    Some n \<Rightarrow> n | None \<Rightarrow> 0)"

text \<open>\<open>int(s)\<close> for a string of ASCII digits.\<close>

definition int_of_digits :: "string \<Rightarrow> int" where
  "int_of_digits s = foldl (\<lambda>n c. 10 * n + digit_val c) 0 s"

section \<open>Building an event line\<close>

definition VERB_MAP :: "(string \<times> string) list" where
  "VERB_MAP =
    [(''open'', ''opened''), (''unlock'', ''unlocked''), (''lock'', ''locked''),
     (''secure'', ''secured''), (''issue'', ''issued''), (''collect'', ''collected''),
     (''deliver'', ''delivered''), (''remove'', ''removed''), (''escort'', ''escorted''),
     (''close'', ''closed''), (''receive'', ''received''), (''call'', ''called''),
     (''handle'', ''handled''), (''extend'', ''extended''), (''bypass'', ''bypassed''),
     (''bring'', ''brought''), (''brought'', ''brought''), (''put'', ''put''),
     (''was'', ''was''), (''putted'', ''put''), (''puted'', ''put''), (''set'', ''set''),
     (''hit'', ''hit''), (''cut'', ''cut''), (''shut'', ''shut''), (''leave'', ''left'')]"

definition to_past_tense :: "string \<Rightarrow> string" where
  "to_past_tense text =
     (case py_split text of
        [] \<Rightarrow> text
      | w # ws \<Rightarrow>
          (let first = py_lower w in
           py_join '' ''
             ((case map_of VERB_MAP first of
                 Some v \<Rightarrow> v
               | None \<Rightarrow>
                   if ends_with first ''ed'' then w
                   else first @ (if ends_with first ''e'' then ''d'' else ''ed'')) # ws)))"

text \<open>\<open>(\d{1,2})/(\d{1,2})/(\d{4})\s+(\d{1,2}:\d{2}\s*[AP]M)\<close> with \<open>re.IGNORECASE\<close>\<close>

definition rx_date_time :: rx where
  "rx_date_time =
     seqs [Grp 1 (Rep is_digit 1 (Some 2) True), Lit ''/'',
           Grp 2 (Rep is_digit 1 (Some 2) True), Lit ''/'',
           Grp 3 (Rep is_digit 4 (Some 4) True), plus is_space,
           Grp 4 (seqs [Rep is_digit 1 (Some 2) True, Lit '':'', Rep is_digit 2 (Some 2) True,
                        star is_space, Cls (chr_in ''APap''), Cls (chr_in ''Mm'')])]"

text \<open>The date of a line: \<open>MM/DD/YY\<close>, then the time in upper case.\<close>

definition short_date :: "caps \<Rightarrow> string" where
  "short_date c =
     fmt_02d (int_of_digits (grps c 1)) @ ''/'' @
     fmt_02d (int_of_digits (grps c 2)) @ ''/'' @
     drop 2 (grps c 3) @ '' '' @ py_upper (grps c 4)"

text \<open>\<open>\bClose\b\<close>\<close>

definition rx_close_word :: rx where
  "rx_close_word = seqs [Wb, Lit ''Close'', Wb]"

text \<open>The separator \<open>" - "\<close> of the parts of a line, written with an en dash.\<close>

definition dash_sep :: string where
  "dash_sep = [CHR '' '', en_dash, CHR '' '']"

definition build_event_line :: "buffer \<Rightarrow> string" where
  "build_event_line buffer =
     (let date0 = py_strip (bget buffer ''date'' []);
          date = (case re_search rx_date_time date0 of
                    Some (pre, m, c) \<Rightarrow> short_date c
                  | None \<Rightarrow> date0);
          officer = bold_officer (bget buffer ''officer'' []);
          action0 = py_strip (bget buffer ''action'' []);
          action = (if action0 \<noteq> [] then py_strip (re_del rx_close_word (to_past_tense action0))
                    else action0);
          company0 = py_strip (bget buffer ''company'' []);
          location = py_strip (bget buffer ''location'' []);
          company = (if company0 \<noteq> [] \<and> action \<noteq> []
                        \<and> contains (py_lower action) (py_lower company0)
                     then [] else company0);
          parts =
            (if date \<noteq> [] then [date] else []) @
            (if officer \<noteq> [] then [officer] else []) @
            (if action \<noteq> [] then [action @ (if company \<noteq> [] then '' for '' @ company else [])]
             else []) @
            (if location \<noteq> [] then [''('' @ location @ '')''] else [])
      in py_strip_chars [CHR '' '', en_dash] (py_join dash_sep parts))"

text \<open>\<open>format_location_name\<close>: the words between white space, capitalized.\<close>

fun ws_pieces :: "string \<Rightarrow> bool \<Rightarrow> string \<Rightarrow> string list" where
  "ws_pieces cur sp [] = [rev cur]"
| "ws_pieces cur sp (c # cs) =
     (if is_space c = sp then ws_pieces (c # cur) sp cs
      else rev cur # ws_pieces [c] (is_space c) cs)"

text \<open>\<open>re.split(r"(\s+)", loc)\<close>: the words and the runs of white space between them, in turn.\<close>

definition split_keep_ws :: "string \<Rightarrow> string list" where
  "split_keep_ws s = ws_pieces [] False s"

definition format_location_name :: "string \<Rightarrow> string" where
  "format_location_name loc0 =
     (let loc = py_strip loc0;
          ws = split_keep_ws loc;
          skip_words = [''and'', ''or'', ''of'', ''the'', ''to'', ''from'', ''at'', ''in'']
      in if loc0 = [] then []
         else concat (map (\<lambda>(i, word).
                if py_strip word = [] then word
                else if py_isupper word \<and> 1 < length word then word
                else if i = 0 \<or> py_lower word \<notin> set skip_words then py_capitalize (py_lower word)
                else py_lower word) (enumerate 0 ws)))"

section \<open>The aggregator\<close>

text \<open>
  A \<open>datetime\<close>: year, month, day, hour, minute, second, microsecond, compared in this
  order as Python compares them.
\<close>

type_synonym datetime = "int \<times> int \<times> int \<times> int \<times> int \<times> int \<times> int"

text \<open>\<open>datetime.max\<close>\<close>

definition datetime_max :: datetime where
  "datetime_max = (9999, 12, 31, 23, 59, 59, 999999)"

text \<open>\<open>^(\d{2}/\d{2}/\d{2})\s+(\d{1,2}:\d{2}\s*[AP]M)\<close>, with its parts as groups 3 to 9.\<close>

definition rx_line_dt :: rx where
  "rx_line_dt =
     seqs [Bol,
           Grp 1 (seqs [Grp 3 (Rep is_digit 2 (Some 2) True), Lit ''/'',
                        Grp 4 (Rep is_digit 2 (Some 2) True), Lit ''/'',
                        Grp 5 (Rep is_digit 2 (Some 2) True)]),
           plus is_space,
           Grp 2 (seqs [Grp 6 (Rep is_digit 1 (Some 2) True), Lit '':'',
                        Grp 7 (Rep is_digit 2 (Some 2) True),
                        Grp 8 (star is_space), Grp 9 (Cls (chr_in ''AP'')), Lit ''M''])]"

definition days_in_month :: "int \<Rightarrow> int \<Rightarrow> int" where
  "days_in_month y m =
     (if m = 2 then (if y mod 4 = 0 \<and> (y mod 100 \<noteq> 0 \<or> y mod 400 = 0) then 29 else 28)
      else if m \<in> set [4, 6, 9, 11] then 30 else 31)"

text \<open>
  \<open>datetime.strptime(f"{g1} {g2}", "%m/%d/%y %I:%M %p")\<close> on the groups of \<open>rx_line_dt\<close>:
  month 01 to 12, day 01 to the length of the month, a two-digit year (00 to 68 in the
  2000s, 69 to 99 in the 1900s), hour 1 to 12, minute 00 to 59, white space before AM or
  PM; \<open>None\<close> where \<open>strptime\<close> raises \<open>ValueError\<close>.
\<close>

definition strptime_line :: "caps \<Rightarrow> datetime option" where
  "strptime_line c =
     (let mo = int_of_digits (grps c 3);
          d = int_of_digits (grps c 4);
          yy = int_of_digits (grps c 5);
          h = int_of_digits (grps c 6);
          mi = int_of_digits (grps c 7);
          y = (if yy \<le> 68 then 2000 + yy else 1900 + yy);
          pm = (grp c 9 = Some ''P'')
      in if 1 \<le> mo \<and> mo \<le> 12 \<and> 1 \<le> d \<and> d \<le> days_in_month y mo \<and> yy \<le> 99
            \<and> 1 \<le> h \<and> h \<le> 12 \<and> mi \<le> 59 \<and> grp c 8 \<noteq> Some []
         then Some (y, mo, d, (if pm then (if h = 12 then 12 else h + 12)
                               else (if h = 12 then 0 else h)), mi, 0, 0)
         else None)"

definition extract_dt :: "string \<Rightarrow> datetime" where
  "extract_dt line =
     (case re_match rx_line_dt line of
        None \<Rightarrow> datetime_max
      | Some (m, c) \<Rightarrow> (case strptime_line c of Some dt \<Rightarrow> dt | None \<Rightarrow> datetime_max))"

text \<open>
  The report: the Python \<open>dict\<close> from the fourteen sections to their lines. Its keys are
  the sections from its creation on; no key is added or removed.
\<close>

type_synonym report = "(string \<times> string list) list"

definition empty_report :: report where
  "empty_report = map (\<lambda>s. (s, [])) SECTIONS"

text \<open>\<open>parsed[s]\<close> for a section \<open>s\<close>.\<close>

definition pget :: "report \<Rightarrow> string \<Rightarrow> string list" where
  "pget parsed s = (case map_of parsed s of Some l \<Rightarrow> l | None \<Rightarrow> [])"

definition placeholder :: string where
  "placeholder = ''None to Report''"

definition transient_summary :: "int \<Rightarrow> string" where
  "transient_summary n =
     ''<font color=\"red\">Within the last 24 hours (<b>'' @ fmt_02d n @
     ''</b>), transients were removed from the property.</font>''"

text \<open>The three final passes of \<open>parse_events\<close>.\<close>

definition fill_placeholders :: "report \<Rightarrow> report" where
  "fill_placeholders parsed =
     foldl (\<lambda>p s. if pget p s = [] then AList.update s [placeholder] p else p) parsed SECTIONS"

definition collapse_transient :: "int \<Rightarrow> report \<Rightarrow> report" where
  "collapse_transient transient_count parsed =
     AList.update ''Transient Removal''
       (if 0 < transient_count then [transient_summary transient_count] else [placeholder]) parsed"

definition sort_sections :: "report \<Rightarrow> report" where
  "sort_sections parsed =
     foldl (\<lambda>p s. if pget p s \<noteq> [] \<and> hd (pget p s) \<noteq> placeholder
                   then AList.update s (sort_key extract_dt (pget p s)) p else p) parsed SECTIONS"

definition finalize :: "report \<Rightarrow> int \<Rightarrow> report" where
  "finalize parsed transient_count =
     sort_sections (collapse_transient transient_count (fill_placeholders parsed))"

section \<open>The scan state and the narrative synthesizers\<close>

text \<open>
  \<open>KeyError k\<close>: Python raises \<open>KeyError\<close> on the key \<open>k\<close>. \<open>OutsideModel w\<close>: the scan
  reached the part \<open>w\<close> of the source that this theory does not embed; nothing is claimed of
  such a run.
\<close>

datatype error = KeyError string | OutsideModel string

text \<open>\<open>parsed[sec].append(evt)\<close>\<close>

definition padd :: "report \<Rightarrow> string \<Rightarrow> string \<Rightarrow> error + report" where
  "padd parsed sec evt =
     (case map_of parsed sec of
        None \<Rightarrow> Inl (KeyError sec)
      | Some l \<Rightarrow> Inr (AList.update sec (l @ [evt]) parsed))"

text \<open>\<open>x or d\<close> for strings.\<close>

definition or_else :: "string \<Rightarrow> string \<Rightarrow> string" where
  "or_else x d = (if x \<noteq> [] then x else d)"

text \<open>\<open>(\d{1,2}:\d{2}\s*[AP]M|\d{3,4}\s*[AP]M|\d{1,2}\s*[AP]M)\<close> with \<open>re.IGNORECASE\<close>\<close>

definition rx_hold_time :: rx where
  "rx_hold_time =
     Grp 1 (alts
       [seqs [Rep is_digit 1 (Some 2) True, Lit '':'', Rep is_digit 2 (Some 2) True,
              star is_space, Cls (chr_in ''APap''), Cls (chr_in ''Mm'')],
        seqs [Rep is_digit 3 (Some 4) True, star is_space, Cls (chr_in ''APap''),
              Cls (chr_in ''Mm'')],
        seqs [Rep is_digit 1 (Some 2) True, star is_space, Cls (chr_in ''APap''),
              Cls (chr_in ''Mm'')]])"

text \<open>\<open>^\d{3,4}[AP]M$\<close>, \<open>^\d{1,2}[AP]M$\<close> and \<open>[AP]M\<close>\<close>

definition rx_compact_time :: rx where
  "rx_compact_time = seqs [Bol, Rep is_digit 3 (Some 4) True, Cls (chr_in ''AP''), Lit ''M'', Eol]"

definition rx_hour_only :: rx where
  "rx_hour_only = seqs [Bol, Rep is_digit 1 (Some 2) True, Cls (chr_in ''AP''), Lit ''M'', Eol]"

definition rx_ampm :: rx where
  "rx_ampm = seqs [Cls (chr_in ''AP''), Lit ''M'']"

text \<open>\<open>s.zfill(2)\<close> for a string of digits.\<close>

definition zfill2 :: "string \<Rightarrow> string" where
  "zfill2 s = replicate (2 - length s) (CHR ''0'') @ s"

text \<open>The time a hold lasts until, read from the action; \<open>None\<close> without a time in it.\<close>

definition hold_until :: "string \<Rightarrow> string option" where
  "hold_until action =
     (case re_search rx_hold_time action of
        None \<Rightarrow> None
      | Some (pre, m, c) \<Rightarrow>
          (let raw_time = py_replace '' '' [] (py_upper (grps c 1)) in
           if re_matches rx_compact_time raw_time then
             (let digits0 = re_del rx_ampm raw_time;
                  ampm = (if CHR ''A'' \<in> set raw_time then ''AM'' else ''PM'');
                  ds = (if length digits0 = 3 then CHR ''0'' # digits0 else digits0)
              in Some (take 2 ds @ '':'' @ drop 2 ds @ '' '' @ ampm))
           else if re_matches rx_hour_only raw_time then
             Some (zfill2 (take (length raw_time - 2) raw_time) @ '':00 '' @
                   drop (length raw_time - 2) raw_time)
           else Some raw_time))"

definition until_clause :: "string option \<Rightarrow> string \<Rightarrow> string" where
  "until_clause h d = (case h of Some t \<Rightarrow> '' until '' @ t | None \<Rightarrow> d)"

text \<open>The action that each section's template writes into the buffer.\<close>

definition property_damage_action :: "buffer \<Rightarrow> string" where
  "property_damage_action buffer =
     (let action = py_strip (bget buffer ''action'' []);
          location = py_strip (bget buffer ''location'' []);
          company = py_strip (bget buffer ''company'' []);
          lower = py_lower action;
          site = or_else location ''the site''
      in if contains_any lower [''hit'', ''struck'', ''collided'', ''impact'', ''crash'', ''bump'']
         then ''reported property damage at '' @ site @ '' after impact involving '' @
              or_else company ''a vehicle'' @ '', noting '' @ action
         else if contains_any lower [''broken'', ''cracked'', ''shattered'', ''smashed'', ''glass'',
                                     ''window'']
         then ''reported property damage involving glass or structural breakage at '' @ site @
              '', with details indicating '' @ action
         else if contains_any lower [''bent'', ''dented'', ''warped'', ''lock'', ''frame'', ''gate'',
                                     ''door'']
         then ''reported property damage at '' @ site @
              '', describing physical issues such as '' @ action
         else if contains_any lower [''burn'', ''scorch'', ''fire'', ''heat'']
         then ''reported property damage related to fire or heat exposure at '' @ site @
              '', with details noting '' @ action
         else if contains_any lower [''leak'', ''flood'', ''water'', ''spill'']
         then ''reported property damage associated with water intrusion at '' @ site @
              '', with details noting '' @ action
         else ''reported property damage at '' @ site @ '', with details noting '' @ action)"

text \<open>Loading Dock: the buffer keeps its action when that is empty.\<close>

definition loading_dock_buffer :: "buffer \<Rightarrow> buffer" where
  "loading_dock_buffer buffer =
     (let action0 = py_strip (bget buffer ''action'' []);
          company = py_strip (bget buffer ''company'' [])
      in if action0 = [] then buffer
         else
           (let action = to_past_tense action0; lower = py_lower action in
            if contains lower ''unlock'' \<or> contains lower ''open''
            then bput buffer ''action''
                   (''was dispatched to the loading dock in response to delivery needs and unlocked the gate for ''
                    @ company @ '', granting authorized access and facilitating scheduled operations.'')
            else if contains lower ''lock'' \<or> contains lower ''secure'' \<or> contains lower ''close''
            then bput buffer ''action''
                   (''was dispatched to the loading dock and secured the gate after '' @ company @
                    [CHR 0x27] @ ''s delivery, maintaining site safety and compliance.'')
            else bput buffer ''action''
                   (''was dispatched to the loading dock and '' @ action @ '' for '' @ company)))"

definition fire_panel_action :: "buffer \<Rightarrow> string" where
  "fire_panel_action buffer =
     (let action = py_strip (bget buffer ''action'' []);
          company = py_strip (bget buffer ''company'' []);
          lower = py_lower action;
          hold_types0 =
            (if contains lower ''full'' then [''full hold''] else []) @
            (if contains lower ''supervisory'' then [''supervisory hold''] else []) @
            (if contains lower ''trouble'' then [''trouble hold''] else []);
          hold_types =
            (if hold_types0 = [] \<and> (contains lower ''hold'' \<or> contains lower ''extend''
                  \<or> contains lower ''bypass'' \<or> contains lower ''put'')
             then [''supervisory hold''] else hold_types0);
          hold_type_str =
            (if contains lower ''supervisory'' \<and> contains lower ''trouble''
             then ''supervisory and trouble hold''
             else if hold_types \<noteq> [] then py_join '' and '' hold_types else ''system hold'');
          until = until_clause (hold_until action) '' until the scheduled time'';
          vendor = or_else company ''the vendor''
      in if contains lower ''extend'' \<or> contains lower ''extended''
         then ''conducted fire panel operations and extended the '' @ hold_type_str @ until @
              '' in coordination with '' @ vendor
         else if contains lower ''hold'' \<or> contains lower ''bypass'' \<or> contains lower ''put''
                 \<or> contains lower ''place''
         then ''conducted fire panel operations and put the system on '' @ hold_type_str @ until @
              '' in coordination with '' @ vendor
         else if contains_any lower [''restore'', ''restored'', ''back online'', ''bring online'',
                   ''brought online'', ''online'', ''remove'', ''removed'']
         then
           (if contains lower ''full''
            then ''conducted fire panel operations and restored the system from full hold in coordination with ''
                 @ vendor
            else if contains lower ''supervisory'' \<and> contains lower ''trouble''
            then ''conducted fire panel operations and restored the system from supervisory and trouble hold in coordination with ''
                 @ vendor
            else if contains lower ''supervisory''
            then ''conducted fire panel operations and restored the system from supervisory hold in coordination with ''
                 @ vendor
            else if contains lower ''trouble''
            then ''conducted fire panel operations and restored the system from trouble hold in coordination with ''
                 @ vendor
            else ''conducted fire panel operations and restored the system online in coordination with ''
                 @ vendor)
         else ''conducted fire panel operations and extended the '' @ hold_type_str @ until @
              '' in coordination with '' @ vendor)"

definition aes_default_action :: string where
  "aes_default_action = ''handled AES phone call to put the fire system on test''"

definition aes_action :: "buffer \<Rightarrow> string" where
  "aes_action buffer =
     (let action = py_strip (bget buffer ''action'' []);
          company = py_strip (bget buffer ''company'' []);
          operator_name = py_strip (or_else (bget buffer ''operator_name'' []) ''N/A'');
          operator_number = py_strip (or_else (bget buffer ''operator_number'' []) ''N/A'');
          lower = py_lower action;
          has_supervisory = contains lower ''supervisory'';
          has_trouble = contains lower ''trouble'';
          has_full = contains lower ''full'';
          hold_type_str =
            (if has_full then ''full hold''
             else if has_supervisory \<and> has_trouble then ''supervisory and trouble hold''
             else if has_supervisory then ''supervisory hold''
             else if has_trouble then ''trouble hold''
             else if contains_any lower [''hold'', ''extend'', ''test''] then ''supervisory hold''
             else ''system hold'');
          until = until_clause (hold_until action) [];
          vendor = or_else company ''the vendor'';
          bold_ops = ''<font color='' @ [CHR 0x27] @ ''green'' @ [CHR 0x27] @ ''>(Operator Name: <b>'' @
                     operator_name @ ''</b>, Operator Number: <b>'' @ operator_number @
                     ''</b>)</font>'';
          plain_ops = ''<font color='' @ [CHR 0x27] @ ''green'' @ [CHR 0x27] @ ''>(Operator Name: '' @
                     operator_name @ '', Operator Number: '' @ operator_number @ '')</font>''
      in if contains lower ''extend''
         then ''called the AES Alarm Monitoring and extended the '' @ hold_type_str @ until @
              '' in coordination with '' @ vendor @ '' '' @ bold_ops
         else if contains_any lower [''hold'', ''bypass'', ''test'']
         then ''called the AES Alarm Monitoring and placed the system on '' @ hold_type_str @ until @
              '' in coordination with '' @ vendor @ '' '' @ bold_ops
         else ''called the AES Alarm Monitoring and placed the system on '' @ hold_type_str @ until @
              '' in coordination with '' @ vendor @ '' '' @ plain_ops)"

text \<open>
  Janitorial: the action of the Seattle Ambassadors test is always overwritten by the
  chain that follows it, whose last branch has no condition.
\<close>

definition janitorial_action :: "buffer \<Rightarrow> string" where
  "janitorial_action buffer =
     (let action = py_strip (bget buffer ''action'' []);
          company = py_strip (or_else (bget buffer ''company'' []) ''ABM Janitorial'');
          lower = py_lower action
      in if contains_any lower [''spill'', ''liquid'', ''water leak'', ''slip'', ''hazard'']
         then ''coordinated janitorial response and notified '' @ company @
              '' to clean a reported spill/hazard to ensure safety and prevent accidents''
         else if contains_any lower [''trash'', ''garbage'', ''overflow'', ''waste'', ''dumpster'']
         then ''reported janitorial concern of trash overflow and dispatched '' @ company @
              '' to clear the waste and maintain cleanliness''
         else if contains_any lower [''restroom'', ''toilet'', ''bathroom'', ''urinal'', ''supply'',
                                     ''paper towel'', ''soap'']
         then ''notified '' @ company @
              '' regarding restroom cleaning and supply replenishment to maintain sanitary conditions''
         else if contains_any lower [''vacuum'', ''sweep'', ''mop'', ''sanitize'', ''disinfect'']
         then ''assigned '' @ company @
              '' to perform floor care and sanitization tasks, including vacuuming, mopping, or sweeping as required''
         else if contains_any lower [''odor'', ''smell'', ''stain'', ''debris'', ''dirty'',
                                     ''cleaning required'']
         then ''requested '' @ company @
              '' to address reported odor, stains, or debris to restore a clean and professional environment''
         else ''coordinated janitorial services through '' @ company @
              '' to address reported cleaning needs on site'')"

definition janitorial_buffer :: "buffer \<Rightarrow> buffer" where
  "janitorial_buffer buffer =
     (let b1 = bput buffer ''action'' (janitorial_action buffer)
      in if btrue b1 ''location''
         then bput b1 ''location'' (format_location_name (bget b1 ''location'' []))
         else b1)"

text \<open>The empty-buffer rule at the head of \<open>flush_event\<close>.\<close>

definition nothing_to_flush :: "buffer \<Rightarrow> bool" where
  "nothing_to_flush b =
     (b = [] \<or> (\<not> btrue b ''action'' \<and> \<not> btrue b ''incident_description''
                 \<and> \<not> btrue b ''incident_comments'' \<and> \<not> btrue b ''category''))"

text \<open>
  The local variables of \<open>parse_events\<close> that outlive a line. \<open>labels\<close> is a Python \<open>set\<close>:
  its elements, without repetition, in the order they were added. \<open>classified\<close> is not a
  variable of the source: it records the section that \<open>classify\<close> returned at each flush,
  so that claims about the events of a scan can be stated; nothing reads it.
\<close>

record pstate =
  parsed :: report
  buffer :: buffer
  labels :: "string list"
  last_field :: "string option"
  transient_count :: int
  transient_tag_seen :: bool
  in_tour :: bool
  waiting_officer_nested :: bool
  classified :: "string list"

definition init_state :: pstate where
  "init_state =
     \<lparr>parsed = empty_report, buffer = [], labels = [], last_field = None,
      transient_count = 0, transient_tag_seen = False, in_tour = False,
      waiting_officer_nested = False, classified = []\<rparr>"

text \<open>The state after a flush: a new buffer, no labels, no tag, no open field.\<close>

definition reset_event :: "pstate \<Rightarrow> pstate" where
  "reset_event st =
     st\<lparr>buffer := [], labels := [], transient_tag_seen := False, last_field := None\<rparr>"

text \<open>Append a built line, if it is not empty, under a section.\<close>

definition emit :: "string \<Rightarrow> string \<Rightarrow> pstate \<Rightarrow> error + pstate" where
  "emit sec evt st =
     (if evt = [] then Inr st
      else (case padd (parsed st) sec evt of
              Inl e \<Rightarrow> Inl e
            | Inr p \<Rightarrow> Inr (st\<lparr>parsed := p\<rparr>)))"

text \<open>
  The last branch of \<open>flush_event\<close>, for every section without a template of its own: the
  line is appended, and the transient counter moves when the section is Transient Removal
  or the tag was seen.
\<close>

definition emit_default :: "string \<Rightarrow> string \<Rightarrow> pstate \<Rightarrow> error + pstate" where
  "emit_default sec evt st =
     (if evt = [] then Inr st
      else (case padd (parsed st) sec evt of
              Inl e \<Rightarrow> Inl e
            | Inr p \<Rightarrow>
                Inr (st\<lparr>parsed := p,
                        transient_count :=
                          (if sec = ''Transient Removal'' \<or> transient_tag_seen st
                           then transient_count st + 1 else transient_count st)\<rparr>)))"

text \<open>
  \<open>flush_event\<close>. \<open>ord\<close> is the order in which iterating the set \<open>labels\<close> yields its
  elements, which Python leaves open. The templates of Incident Reports, Elevator
  Entrapment, Work Orders, Key Service and Additional Information are outside the model.
\<close>

definition flush_section :: "string \<Rightarrow> buffer \<Rightarrow> pstate \<Rightarrow> error + pstate" where
  "flush_section sec b st =
     (if sec = ''Incident Reports (IR) / Alarms'' then Inl (OutsideModel ''flush: Incident Reports'')
      else if sec = ''Elevator Entrapment Incidents'' then Inl (OutsideModel ''flush: Elevator Entrapment'')
      else if sec = ''Work Orders'' then Inl (OutsideModel ''flush: Work Orders'')
      else if sec = ''Property Damage''
      then emit sec (build_event_line (bput b ''action'' (property_damage_action b))) st
      else if sec = ''Key Service (Lock & Unlock)'' then Inl (OutsideModel ''flush: Key Service'')
      else if sec = ''Loading Dock Access (Lock & Unlock)''
      then emit sec (build_event_line (loading_dock_buffer b)) st
      else if sec = ''Fire Panel Bypass/Online''
      then emit sec (build_event_line (bput b ''action'' (fire_panel_action b))) st
      else if sec = ''AES Phone Calls''
      then emit sec (build_event_line (bput b ''action'' (aes_action b))) st
      else if sec = ''Janitorial''
      then emit sec (build_event_line (janitorial_buffer b)) st
      else if sec = ''Additional Information'' then Inl (OutsideModel ''flush: Additional Information'')
      else emit_default sec (build_event_line b) st)"

definition flush_event :: "(string list \<Rightarrow> string list) \<Rightarrow> pstate \<Rightarrow> error + pstate" where
  "flush_event ord st =
     (let b = buffer st in
      if nothing_to_flush b then Inr (st\<lparr>buffer := [], last_field := None\<rparr>)
      else
        (let sec = classify b (ord (labels st));
             b1 = (if sec = ''AES Phone Calls'' \<and> \<not> btrue b ''action''
                   then bput b ''action'' aes_default_action else b)
         in case flush_section sec b1 (st\<lparr>classified := classified st @ [sec]\<rparr>) of
              Inl e \<Rightarrow> Inl e
            | Inr st' \<Rightarrow> Inr (reset_event st')))"


section \<open>The line scanner\<close>

text \<open>
  What one step of the loop body does with the line: fall through to the next statement
  (\<open>Next\<close>), end the iteration as \<open>continue\<close> does (\<open>Done\<close>), or raise.
\<close>

datatype flow = Next pstate | Done pstate | Raise error

fun run_phases :: "(pstate \<Rightarrow> flow) list \<Rightarrow> pstate \<Rightarrow> flow" where
  "run_phases [] st = Next st"
| "run_phases (f # fs) st =
     (case f st of Next st' \<Rightarrow> run_phases fs st' | Done st' \<Rightarrow> Done st' | Raise e \<Rightarrow> Raise e)"

definition cat_lower :: "pstate \<Rightarrow> string" where
  "cat_lower st = py_lower (bget (buffer st) ''category'' [])"

definition set_field :: "string \<Rightarrow> string \<Rightarrow> pstate \<Rightarrow> pstate" where
  "set_field k v st = st\<lparr>buffer := bput (buffer st) k v\<rparr>"

definition set_last :: "string option \<Rightarrow> pstate \<Rightarrow> pstate" where
  "set_last f st = st\<lparr>last_field := f\<rparr>"

text \<open>A field read from what follows the colon of the line, which then is the open field.\<close>

definition capture :: "string \<Rightarrow> string \<Rightarrow> pstate \<Rightarrow> flow" where
  "capture k ln st = Done (set_last (Some k) (set_field k (py_strip (after_colon ln)) st))"

text \<open>The same, leaving the open field as it is.\<close>

definition capture_keep :: "string \<Rightarrow> string \<Rightarrow> pstate \<Rightarrow> flow" where
  "capture_keep k ln st = Done (set_field k (py_strip (after_colon ln)) st)"

text \<open>\<open>if c: flush_event(); buffer.clear()\<close>\<close>

definition flush_clear_if :: "(string list \<Rightarrow> string list) \<Rightarrow> bool \<Rightarrow> pstate \<Rightarrow> error + pstate" where
  "flush_clear_if ord c st =
     (if c then (case flush_event ord st of Inl e \<Rightarrow> Inl e | Inr st' \<Rightarrow> Inr (st'\<lparr>buffer := []\<rparr>))
      else Inr st)"

definition d12 :: rx where
  "d12 = Rep is_digit 1 (Some 2) True"

definition d22 :: rx where
  "d22 = Rep is_digit 2 (Some 2) True"

definition d44 :: rx where
  "d44 = Rep is_digit 4 (Some 4) True"

definition ampm_any :: rx where
  "ampm_any = Seq (Cls (chr_in ''APap'')) (Cls (chr_in ''Mm''))"

text \<open>\<open>^\s*numbers\)\s*:\s*\<close> (ignoring case)\<close>

definition rx_numbers :: rx where
  "rx_numbers = seqs [Bol, star is_space, LitI ''numbers)'', star is_space, Lit '':'', star is_space]"

text \<open>\<open>start\s*date\s*:\s*([0-9/]+\s+\d{1,2}:\d{2}\s*[APap][Mm])\<close> (ignoring case)\<close>

definition rx_start_date_val :: rx where
  "rx_start_date_val =
     seqs [LitI ''start'', star is_space, LitI ''date'', star is_space, Lit '':'', star is_space,
           Grp 1 (seqs [plus (\<lambda>c. is_digit c \<or> c = CHR ''/''), plus is_space, d12, Lit '':'', d22,
                        star is_space, ampm_any])]"

text \<open>\<open>^\d{1,2}/\d{1,2}/\d{4}\s+\d{1,2}:\d{2}\s*[APap][Mm]$\<close>: a bare timestamp line.\<close>

definition rx_bare_ts :: rx where
  "rx_bare_ts =
     seqs [Bol, d12, Lit ''/'', d12, Lit ''/'', d44, plus is_space, d12, Lit '':'', d22,
           star is_space, ampm_any, Eol]"

text \<open>\<open>(if\s*so,?\s*who\s*called|who\s*called\s*them)\<close> and \<open>all\s*persons\s*involved\<close> (ignoring case)\<close>

definition rx_who_called :: rx where
  "rx_who_called =
     Alt (seqs [LitI ''if'', star is_space, LitI ''so'', Opt (Lit '',''), star is_space, LitI ''who'',
                star is_space, LitI ''called''])
         (seqs [LitI ''who'', star is_space, LitI ''called'', star is_space, LitI ''them''])"

definition rx_all_persons :: rx where
  "rx_all_persons = seqs [LitI ''all'', star is_space, LitI ''persons'', star is_space, LitI ''involved'']"

text \<open>\<open>\b(until|by|at)\b\<close> (ignoring case)\<close>

definition rx_until_by_at :: rx where
  "rx_until_by_at = seqs [Wb, alts [LitI ''until'', LitI ''by'', LitI ''at''], Wb]"

text \<open>The three header patterns whose line sends the scan to look for an officer's name.\<close>

definition rx_loading_dock_gate :: rx where
  "rx_loading_dock_gate =
     seqs [Wb, LitI ''Loading'', plus is_space, LitI ''Dock'', plus is_space, LitI ''Gate'', Wb]"

definition rx_fire_panel_header :: rx where
  "rx_fire_panel_header =
     seqs [Wb, LitI ''Fire'', plus is_space, LitI ''Panel'', plus is_space, LitI ''Bypass/Online'', Wb]"

definition rx_aes_header :: rx where
  "rx_aes_header =
     seqs [Wb, LitI ''AES'', plus is_space, LitI ''Phone'', plus is_space, LitI ''Call'', Wb]"

text \<open>\<open>(?:\s*\((?:Officers?|Site\s+Supervisors?)\))?\<close> (ignoring case)\<close>

definition rx_role_suffix :: rx where
  "rx_role_suffix =
     Opt (seqs [star is_space, Lit ''('',
                Alt (seqs [LitI ''Officer'', Opt (LitI ''s'')])
                    (seqs [LitI ''Site'', plus is_space, LitI ''Supervisor'', Opt (LitI ''s'')]),
                Lit '')''])"

text \<open>\<open>[A-Z][A-Za-z]+\<close> ignoring case, and as written.\<close>

definition rx_name_word_i :: rx where
  "rx_name_word_i = Seq (Cls is_alpha) (plus is_alpha)"

definition rx_name_word :: rx where
  "rx_name_word = Seq (Cls is_upper) (plus is_alpha)"

text \<open>\<open>^[A-Z][A-Za-z]+\s+[A-Z][A-Za-z]+(?:\s*\(...\))?$\<close> (ignoring case)\<close>

definition rx_name2_role :: rx where
  "rx_name2_role =
     seqs [Bol, rx_name_word_i, plus is_space, rx_name_word_i, rx_role_suffix, Eol]"

text \<open>\<open>^[A-Z][A-Za-z]+(?:\s+[A-Z][A-Za-z]+){1,2}(?:\s*\(...\))?$\<close> (ignoring case)\<close>

definition rx_name23_role :: rx where
  "rx_name23_role =
     seqs [Bol, rx_name_word_i, Seq (plus is_space) rx_name_word_i,
           Opt (Seq (plus is_space) rx_name_word_i), rx_role_suffix, Eol]"

text \<open>\<open>\(.*?\)\<close>\<close>

definition rx_paren :: rx where
  "rx_paren = seqs [Lit ''('', Rep (\<lambda>c. c \<noteq> CHR 0x0A) 0 None False, Lit '')'']"

text \<open>\<open>^(new activity|300 pine|close|start date|geolocation|page|report)\<close> (ignoring case)\<close>

definition rx_noise_line :: rx where
  "rx_noise_line =
     Seq Bol (alts [LitI ''new activity'', LitI ''300 pine'', LitI ''close'', LitI ''start date'',
                    LitI ''geolocation'', LitI ''page'', LitI ''report''])"

text \<open>\<open>range(i - 1, max(0, i - 6), -1)\<close>: from \<open>i - 1\<close> down to the index after \<open>max(0, i - 6)\<close>.\<close>

definition back_range :: "nat \<Rightarrow> nat list" where
  "back_range i = rev [Suc (i - 6) ..< i]"

definition capitalize_all :: "string list \<Rightarrow> string" where
  "capitalize_all parts = py_join '' '' (map py_capitalize parts)"

text \<open>The officer read from a name line above a Loading Dock Gate header.\<close>

definition dock_officer :: "string \<Rightarrow> string" where
  "dock_officer prev_line =
     (let parts = py_split (py_strip (re_del rx_paren prev_line)) in
      case parts of
        [a, b] \<Rightarrow>
          if py_isupper a \<or> py_isupper (take 1 a)
          then py_capitalize b @ '' '' @ py_capitalize a
          else capitalize_all parts
      | _ \<Rightarrow> capitalize_all parts)"

fun dock_lookback :: "string list \<Rightarrow> nat list \<Rightarrow> pstate \<Rightarrow> pstate" where
  "dock_lookback lines [] st = st"
| "dock_lookback lines (j # js) st =
     (let prev_line = py_strip (lines ! j) in
      if re_matches rx_name2_role prev_line
      then set_field ''officer'' (dock_officer prev_line) st
      else dock_lookback lines js st)"

text \<open>The officer read from a name line above a Fire Panel or AES Phone Call header.\<close>

definition header_officer :: "string \<Rightarrow> string" where
  "header_officer prev_line =
     (let parts = py_split (py_strip (re_del rx_paren prev_line)) in
      case parts of
        [a, b] \<Rightarrow>
          if py_isupper a then py_capitalize b @ '' '' @ py_capitalize a
          else capitalize_all parts
      | [a, b, c] \<Rightarrow>
          if py_isupper a then py_capitalize b @ '' '' @ py_capitalize c
          else capitalize_all parts
      | _ \<Rightarrow> capitalize_all parts)"

fun header_lookback :: "string list \<Rightarrow> nat list \<Rightarrow> pstate \<Rightarrow> pstate" where
  "header_lookback lines [] st = st"
| "header_lookback lines (j # js) st =
     (let prev_line = py_strip (lines ! j) in
      if re_found rx_noise_line prev_line then header_lookback lines js st
      else if re_matches rx_name23_role prev_line
      then set_field ''officer'' (header_officer prev_line) st
      else header_lookback lines js st)"

text \<open>\<open>lines.index(ln)\<close>: the first place of a line equal to \<open>ln\<close>.\<close>

fun index_of :: "string list \<Rightarrow> string \<Rightarrow> nat" where
  "index_of [] x = 0"
| "index_of (y # ys) x = (if y = x then 0 else Suc (index_of ys x))"

text \<open>
  The patterns of the look-ahead after a NEW ACTIVITY line:
  \<open>^[A-Z][A-Za-z]+\s+[A-Z][A-Za-z]+\<close>, \<open>\s*\((?:Officers?|Site\s+Supervisors?)\)\s*\<close>
  (ignoring case), \<open>^([A-Z][A-Za-z]+)\s+([A-Z][A-Za-z]+)$\<close>, \<open>^[A-Z]{2,}\s+[A-Z]{2,}$\<close>,
  \<open>^[A-Z][a-z]+\s+[A-Z][a-z]+$\<close> and \<open>\s{2,}\<close>.
\<close>

definition rx_two_names_head :: rx where
  "rx_two_names_head = seqs [Bol, rx_name_word, plus is_space, rx_name_word]"

definition rx_role_anywhere :: rx where
  "rx_role_anywhere =
     seqs [star is_space, Lit ''('',
           Alt (seqs [LitI ''Officer'', Opt (LitI ''s'')])
               (seqs [LitI ''Site'', plus is_space, LitI ''Supervisor'', Opt (LitI ''s'')]),
           Lit '')'', star is_space]"

definition rx_last_first :: rx where
  "rx_last_first = seqs [Bol, Grp 1 rx_name_word, plus is_space, Grp 2 rx_name_word, Eol]"

definition rx_two_upper :: rx where
  "rx_two_upper =
     seqs [Bol, Rep is_upper 2 None True, plus is_space, Rep is_upper 2 None True, Eol]"

definition rx_two_title :: rx where
  "rx_two_title =
     seqs [Bol, Cls is_upper, plus is_lower, plus is_space, Cls is_upper, plus is_lower, Eol]"

definition rx_spaces2 :: rx where
  "rx_spaces2 = Rep is_space 2 None True"

definition activity_officer :: "string \<Rightarrow> string" where
  "activity_officer maybe_officer =
     (let name = py_strip (re_del rx_role_anywhere (py_strip (re_del rx_paren maybe_officer)));
          name' =
            (case re_match rx_last_first name of
               Some (m, c) \<Rightarrow> py_capitalize (grps c 2) @ '' '' @ py_capitalize (grps c 1)
             | None \<Rightarrow>
                 if re_matches rx_two_upper name then
                   (case py_split name of
                      [a, b] \<Rightarrow> py_capitalize b @ '' '' @ py_capitalize a
                    | _ \<Rightarrow> name)
                 else if re_matches rx_two_title name then
                   (case py_split name of
                      a # b # _ \<Rightarrow> py_capitalize a @ '' '' @ py_capitalize b
                    | _ \<Rightarrow> name)
                 else name)
      in py_strip (re_sub rx_spaces2 (\<lambda>m c. '' '') name'))"

fun activity_lookahead :: "string list \<Rightarrow> nat list \<Rightarrow> pstate \<Rightarrow> pstate" where
  "activity_lookahead lines [] st = st"
| "activity_lookahead lines (j # js) st =
     (let maybe_officer = py_strip (lines ! j) in
      if re_matches rx_two_names_head maybe_officer
      then set_field ''officer'' (activity_officer maybe_officer) st
      else activity_lookahead lines js st)"

text \<open>The lines that carry a category: \<open>any(k in ln for k in [...])\<close>.\<close>

definition category_keys :: "string list" where
  "category_keys =
     [''AES Phone Call'', ''Loading Dock Gate'', ''Key Service'', ''Work Order'', ''Janitorial'',
      ''Incident Report'', ''Alarm'', ''Fire Panel Bypass/Online'', ''Transient Removal'',
      ''Retail'', ''Tenant'', ''Other/Miscellaneous'', ''Elevator Entrapment'',
      ''Entrapment Incident'', ''Stuck in Elevator'']"

text \<open>\<open>^(.*?)\s*\(Officers?\)\s*$\<close> and \<open>^(.*?)\s*\(Site\s+Supervisors?\)\s*$\<close> (ignoring case)\<close>

definition OFFICER_LINE_RX :: rx where
  "OFFICER_LINE_RX =
     seqs [Bol, Grp 1 (Rep (\<lambda>c. c \<noteq> CHR 0x0A) 0 None False), star is_space,
           Lit ''('', LitI ''Officer'', Opt (LitI ''s''), Lit '')'', star is_space, Eol]"

definition OFFICER_LINE_RX_ALT :: rx where
  "OFFICER_LINE_RX_ALT =
     seqs [Bol, Grp 1 (Rep (\<lambda>c. c \<noteq> CHR 0x0A) 0 None False), star is_space,
           Lit ''('', LitI ''Site'', plus is_space, LitI ''Supervisor'', Opt (LitI ''s''), Lit '')'',
           star is_space, Eol]"

text \<open>\<open>^(Activities|Loading|Key|Door|Gate|Victrola|Uniqlo|Report|Duration|Object)\b\<close> (ignoring case)\<close>

definition rx_not_a_person :: rx where
  "rx_not_a_person =
     seqs [Bol, alts [LitI ''Activities'', LitI ''Loading'', LitI ''Key'', LitI ''Door'', LitI ''Gate'',
                      LitI ''Victrola'', LitI ''Uniqlo'', LitI ''Report'', LitI ''Duration'',
                      LitI ''Object''], Wb]"

text \<open>The officer's name as the scan rewrites it at every line that reaches this point.\<close>

definition normalize_officer :: "pstate \<Rightarrow> pstate" where
  "normalize_officer st =
     (if btrue (buffer st) ''officer'' then
        (let name = py_strip (bget (buffer st) ''officer'' []) in
         if re_matches rx_not_a_person name then st
         else
           (let parts = py_split name in
            case parts of
              [a, b] \<Rightarrow>
                if py_isupper a \<and> py_isupper (take 1 b)
                then set_field ''officer'' (py_capitalize b @ '' '' @ py_capitalize a) st
                else set_field ''officer'' (capitalize_all parts) st
            | _ \<Rightarrow> set_field ''officer'' (capitalize_all parts) st))
      else st)"

text \<open>
  \<open>Start\s*Date\s*:\<close>, \<open>Start\s*Date\s*:\s*([0-9/:\sAPMapm]+)\<close>, \<open>\bStart\s*Date\s*:\<close> and
  \<open>\bStart\s*Date\s*:\s*([0-9/]+\s+\d{1,2}:\d{2}\s*[APap][Mm])\<close> (all ignoring case)
\<close>

definition rx_start_date_colon :: rx where
  "rx_start_date_colon = seqs [LitI ''start'', star is_space, LitI ''date'', star is_space, Lit '':'']"

definition rx_start_date_loose :: rx where
  "rx_start_date_loose =
     seqs [rx_start_date_colon, star is_space,
           Grp 1 (plus (\<lambda>c. is_digit c \<or> is_space c \<or> c \<in> set ''/:APMapm''))]"

definition rx_start_date_colon_b :: rx where
  "rx_start_date_colon_b = Seq Wb rx_start_date_colon"

definition rx_start_date_val_b :: rx where
  "rx_start_date_val_b = Seq Wb rx_start_date_val"

text \<open>
  \<open>(Date\s*of\s*(the\s*)?Incident|Incident\s*Date)\s*:\<close> with \<open>\s*([0-9/]+)\<close>, and
  \<open>(Time\s*of\s*(the\s*)?Incident|Incident\s*Time)\s*:\<close> with
  \<open>\s*([0-9:]+\s*(AM|PM|am|pm)?)\<close> (ignoring case)
\<close>

definition rx_incident_date_key :: rx where
  "rx_incident_date_key =
     seqs [Grp 1 (Alt (seqs [LitI ''Date'', star is_space, LitI ''of'', star is_space,
                             Opt (Grp 2 (Seq (LitI ''the'') (star is_space))), LitI ''Incident''])
                      (seqs [LitI ''Incident'', star is_space, LitI ''Date''])),
           star is_space, Lit '':'']"

definition rx_incident_date_val :: rx where
  "rx_incident_date_val =
     seqs [rx_incident_date_key, star is_space, Grp 3 (plus (\<lambda>c. is_digit c \<or> c = CHR ''/''))]"

definition rx_incident_time_key :: rx where
  "rx_incident_time_key =
     seqs [Grp 1 (Alt (seqs [LitI ''Time'', star is_space, LitI ''of'', star is_space,
                             Opt (Grp 2 (Seq (LitI ''the'') (star is_space))), LitI ''Incident''])
                      (seqs [LitI ''Incident'', star is_space, LitI ''Time''])),
           star is_space, Lit '':'']"

definition rx_incident_time_val :: rx where
  "rx_incident_time_val =
     seqs [rx_incident_time_key, star is_space,
           Grp 3 (seqs [plus (\<lambda>c. is_digit c \<or> c = CHR '':''), star is_space,
                        Opt (Grp 4 (Alt (LitI ''AM'') (LitI ''PM'')))])]"

text \<open>
  The patterns that end or skip a continuation of the incident description:
  \<open>^(-\s*)?parties\s+involved\b\<close>,
  \<open>^(-\s*)?(additional comments|photos?|evidence|incident info|geolocation)\b\<close> and
  \<open>(report\s*-\s*logbook\s*pdf|\bpage\s*\d+/\d+)\<close> (ignoring case)
\<close>

definition rx_parties_head :: rx where
  "rx_parties_head =
     seqs [Bol, Opt (Grp 1 (Seq (Lit ''-'') (star is_space))), LitI ''parties'', plus is_space,
           LitI ''involved'', Wb]"

definition rx_desc_stop :: rx where
  "rx_desc_stop =
     seqs [Bol, Opt (Grp 1 (Seq (Lit ''-'') (star is_space))),
           Grp 2 (alts [LitI ''additional comments'', Seq (LitI ''photo'') (Opt (LitI ''s'')),
                        LitI ''evidence'', LitI ''incident info'', LitI ''geolocation'']), Wb]"

definition rx_page_noise :: rx where
  "rx_page_noise =
     Grp 1 (Alt (seqs [LitI ''report'', star is_space, Lit ''-'', star is_space, LitI ''logbook'',
                       star is_space, LitI ''pdf''])
                (seqs [Wb, LitI ''page'', star is_space, plus is_digit, Lit ''/'', plus is_digit]))"

text \<open>\<open>^-\s*Multi-?line\s+text\s+field\s*:\s*(.*)$\<close> (ignoring case)\<close>

definition MULTILINE_RX :: rx where
  "MULTILINE_RX =
     seqs [Bol, Lit ''-'', star is_space, LitI ''Multi'', Opt (Lit ''-''), LitI ''line'', plus is_space,
           LitI ''text'', plus is_space, LitI ''field'', star is_space, Lit '':'', star is_space,
           Grp 1 (Rep (\<lambda>c. c \<noteq> CHR 0x0A) 0 None True), Eol]"

definition starters :: "string list" where
  "starters =
     [''Start Date'', ''Officer'', ''- Officer :'', ''Date & Time'', ''Date/Time'', ''- Date :'',
      ''- Time :'', ''Details'', ''Call Details'', ''Location'', ''- Location :'', ''Company'',
      ''- Company'', ''Vendor'', ''Comments'', ''- Multi-line text field'', ''Geolocation'',
      ''Evidence'', ''NEW ACTIVITY'', ''TOUR'', ''Start Time'', ''End Time'', ''Report Details'',
      ''Posts included'', ''Activities included'', ''New Group'', ''Tags'', ''Duration'',
      ''Max. Tour Duration'', ''- Picture'', ''Picture'', ''Key Service'', ''Loading Dock Gate'',
      ''Fire Panel'', ''Janitorial'', ''Transient Removal'', ''Retail Issues'', ''Tenant Issues'',
      ''Fire Panel Bypass/Online'', ''Incident'', ''Totals Activities'', ''Total Activities'',
      ''Activity Duration'', ''Object Duration'', ''AES Phone Call'', ''Work Order'',
      ''Other/Miscellaneous'', ''Synopsis'', ''Follow up'', ''Escalation?'', ''- Upload picture'']"

definition is_new_block_line :: "pstate \<Rightarrow> string \<Rightarrow> bool" where
  "is_new_block_line st ln =
     (if ln = [] then True
      else if list_ex (starts_with ln) starters then True
      else if contains ln ''(Officers)'' then True
      else if re_matches rx_bare_ts ln then \<not> starts_with (cat_lower st) ''incident report''
      else ln \<in> set [''300 Pine Street'', ''300 Pine Street Call Details''])"

text \<open>The statements of the loop body, in the order of the source.\<close>

definition ph_numbers :: "string \<Rightarrow> pstate \<Rightarrow> flow" where
  "ph_numbers ln st = (if re_matches rx_numbers ln then Done (set_last None st) else Next st)"

text \<open>A Start Date line inside an Incident Report or an Elevator Entrapment Incident.\<close>

definition ph_section_start_date ::
    "(string list \<Rightarrow> string list) \<Rightarrow> string \<Rightarrow> string \<Rightarrow> pstate \<Rightarrow> flow" where
  "ph_section_start_date ord key ln st =
     (if contains (cat_lower st) key then
        (case re_search rx_start_date_val ln of
           None \<Rightarrow> Next st
         | Some (pre, m, c) \<Rightarrow>
             (case flush_clear_if ord (btrue (buffer st) ''date'') st of
                Inl e \<Rightarrow> Raise e
              | Inr st1 \<Rightarrow>
                  Done (set_last (Some ''date'')
                         (set_field ''date'' (py_strip (grps c 1))
                           (set_field ''start_date'' (py_strip (grps c 1)) st1)))))
      else Next st)"

definition ph_who_called :: "string \<Rightarrow> pstate \<Rightarrow> flow" where
  "ph_who_called ln st =
     (if re_found rx_who_called ln then Raise (OutsideModel ''scan: who called'') else Next st)"

definition ph_all_persons :: "string \<Rightarrow> pstate \<Rightarrow> flow" where
  "ph_all_persons ln st =
     (if re_found rx_all_persons ln then Raise (OutsideModel ''scan: all persons involved'')
      else Next st)"

text \<open>A bare timestamp inside Key Service, Loading Dock or Fire Panel opens a new event.\<close>

definition ph_timestamp ::
    "(string list \<Rightarrow> string list) \<Rightarrow> bool \<Rightarrow> bool \<Rightarrow> string \<Rightarrow> pstate \<Rightarrow> flow" where
  "ph_timestamp ord here flush_first ln st =
     (if here then
        (case flush_clear_if ord flush_first st of
           Inl e \<Rightarrow> Raise e
         | Inr st1 \<Rightarrow> Done (set_last (Some ''date'') (set_field ''date'' (py_strip ln) st1)))
      else Next st)"

definition ph_key_ts :: "(string list \<Rightarrow> string list) \<Rightarrow> string \<Rightarrow> pstate \<Rightarrow> flow" where
  "ph_key_ts ord ln st =
     ph_timestamp ord (contains (cat_lower st) ''key service'' \<and> re_matches rx_bare_ts ln)
       (btrue (buffer st) ''date'') ln st"

definition ph_dock_ts :: "(string list \<Rightarrow> string list) \<Rightarrow> string \<Rightarrow> pstate \<Rightarrow> flow" where
  "ph_dock_ts ord ln st =
     ph_timestamp ord
       ((contains (cat_lower st) ''loading dock'' \<or> contains (cat_lower st) ''dock gate'')
        \<and> re_matches rx_bare_ts ln)
       (btrue (buffer st) ''date'' \<and> (btrue (buffer st) ''action'' \<or> btrue (buffer st) ''company''))
       ln st"

definition ph_fire_ts :: "(string list \<Rightarrow> string list) \<Rightarrow> string \<Rightarrow> pstate \<Rightarrow> flow" where
  "ph_fire_ts ord ln st =
     ph_timestamp ord
       (contains (cat_lower st) ''fire panel'' \<and> re_matches rx_bare_ts ln
        \<and> \<not> re_found rx_until_by_at ln)
       (btrue (buffer st) ''date'' \<and> (btrue (buffer st) ''action'' \<or> btrue (buffer st) ''company''))
       ln st"

definition ph_dock_officer :: "string list \<Rightarrow> nat \<Rightarrow> string \<Rightarrow> pstate \<Rightarrow> flow" where
  "ph_dock_officer lines i ln st =
     Next (if re_found rx_loading_dock_gate ln then dock_lookback lines (back_range i) st else st)"

definition ph_fire_officer :: "string list \<Rightarrow> nat \<Rightarrow> string \<Rightarrow> pstate \<Rightarrow> flow" where
  "ph_fire_officer lines i ln st =
     Next (if re_found rx_fire_panel_header ln then header_lookback lines (back_range i) st else st)"

definition ph_aes_officer :: "string list \<Rightarrow> nat \<Rightarrow> string \<Rightarrow> pstate \<Rightarrow> flow" where
  "ph_aes_officer lines i ln st =
     Next (if re_found rx_aes_header ln then header_lookback lines (back_range i) st else st)"

definition ph_new_activity :: "string list \<Rightarrow> string \<Rightarrow> pstate \<Rightarrow> flow" where
  "ph_new_activity lines ln st =
     Next (if starts_with (py_lower (py_strip ln)) ''new activity''
           then activity_lookahead lines
                  [Suc (index_of lines ln) ..< min (Suc (index_of lines ln) + 6) (length lines)] st
           else st)"

text \<open>The three sub-blocks that are outside the model.\<close>

definition ph_spd :: "string \<Rightarrow> pstate \<Rightarrow> flow" where
  "ph_spd ln st =
     (if contains (py_lower ln) ''spd presence/emergency response on''
      then Raise (OutsideModel ''scan: SPD Presence block'') else Next st)"

definition ph_ambassador :: "string \<Rightarrow> pstate \<Rightarrow> flow" where
  "ph_ambassador ln st =
     (if py_lower (py_strip ln) = ''seattle ambassadors''
         \<or> contains (py_lower ln) ''seattle ambassadors start date''
      then Raise (OutsideModel ''scan: Seattle Ambassadors block'') else Next st)"

definition ph_unsecure :: "string \<Rightarrow> pstate \<Rightarrow> flow" where
  "ph_unsecure ln st =
     (if contains (py_lower ln) ''unsecure door''
      then Raise (OutsideModel ''scan: Unsecure door block'') else Next st)"

definition ph_tour :: "string \<Rightarrow> pstate \<Rightarrow> flow" where
  "ph_tour ln st =
     (if starts_with (py_upper ln) ''TOUR'' then Done (st\<lparr>in_tour := True\<rparr>)
      else
        (let st1 = (if in_tour st \<and> (starts_with ln ''NEW ACTIVITY'' \<or> starts_with ln ''Start Date'')
                    then st\<lparr>in_tour := False\<rparr> else st)
         in if in_tour st1 then Done st1 else Next st1))"

text \<open>\<open>{k: buffer[k] for k in ("officer", "date") if k in buffer}\<close>\<close>

definition carry_fields :: "buffer \<Rightarrow> buffer" where
  "carry_fields b =
     (case map_of b ''officer'' of Some v \<Rightarrow> [(''officer'', v)] | None \<Rightarrow> []) @
     (case map_of b ''date'' of Some v \<Rightarrow> [(''date'', v)] | None \<Rightarrow> [])"

text \<open>\<open>buffer.update(carry)\<close>\<close>

fun update_all :: "buffer \<Rightarrow> buffer \<Rightarrow> buffer" where
  "update_all b [] = b"
| "update_all b ((k, v) # kvs) = update_all (bput b k v) kvs"

definition add_label :: "string \<Rightarrow> string list \<Rightarrow> string list" where
  "add_label ln ls = (if ln \<in> set ls then ls else ls @ [ln])"

definition ph_category :: "(string list \<Rightarrow> string list) \<Rightarrow> string \<Rightarrow> pstate \<Rightarrow> flow" where
  "ph_category ord ln st =
     (if contains_any ln category_keys then
        (case (if contains (py_lower ln) ''incident report''
               then (case flush_event ord st of
                       Inl e \<Rightarrow> Inl e
                     | Inr s \<Rightarrow> Inr (s\<lparr>buffer := update_all (buffer s) (carry_fields (buffer st))\<rparr>))
               else Inr st) of
           Inl e \<Rightarrow> Raise e
         | Inr st1 \<Rightarrow>
             (case (if contains (py_lower ln) ''transient removal''
                       \<and> cat_lower st1 = ''transient removal''
                    then flush_event ord st1 else Inr st1) of
                Inl e \<Rightarrow> Raise e
              | Inr st2 \<Rightarrow>
                  Next (st2\<lparr>labels := add_label ln (labels st2),
                             buffer := bput (buffer st2) ''category'' (py_strip ln),
                             transient_tag_seen :=
                               (contains ln ''Transient Removal'' \<or> transient_tag_seen st2)\<rparr>)))
      else Next st)"

definition ph_officer_header :: "string \<Rightarrow> pstate \<Rightarrow> flow" where
  "ph_officer_header ln st =
     (if ln = ''Officer'' then Done (st\<lparr>waiting_officer_nested := True, last_field := None\<rparr>)
      else Next st)"

definition ph_officer_nested :: "string \<Rightarrow> pstate \<Rightarrow> flow" where
  "ph_officer_nested ln st =
     (if waiting_officer_nested st \<and> starts_with ln ''- Officer :''
      then Done ((set_last (Some ''officer'') (set_field ''officer'' (py_strip (after_colon ln)) st))
                 \<lparr>waiting_officer_nested := False\<rparr>)
      else Next st)"

definition ph_officer_line :: "string \<Rightarrow> pstate \<Rightarrow> flow" where
  "ph_officer_line ln st =
     (if starts_with ln ''- Officer :'' \<or> starts_with ln ''Officer :''
      then capture ''officer'' ln st else Next st)"

definition ph_officer_rx :: "string \<Rightarrow> pstate \<Rightarrow> flow" where
  "ph_officer_rx ln st =
     (case re_match OFFICER_LINE_RX ln of
        Some (m, c) \<Rightarrow>
          Done (set_last (Some ''officer'')
                 (set_field ''officer'' (py_strip_chars '' -:'' (grps c 1)) st))
      | None \<Rightarrow>
          (case re_match OFFICER_LINE_RX_ALT ln of
             Some (m, c) \<Rightarrow>
               Done (set_last (Some ''officer'')
                      (set_field ''officer'' (py_strip_chars '' -:'' (grps c 1)) st))
           | None \<Rightarrow> Next st))"

definition ph_normalize :: "pstate \<Rightarrow> flow" where
  "ph_normalize st = Next (normalize_officer st)"

definition ph_new_activity_ir :: "(string list \<Rightarrow> string list) \<Rightarrow> string \<Rightarrow> pstate \<Rightarrow> flow" where
  "ph_new_activity_ir ord ln st =
     (if starts_with ln ''NEW ACTIVITY'' \<and> cat_lower st = ''incident report''
      then (case flush_event ord st of Inl e \<Rightarrow> Raise e | Inr s \<Rightarrow> Done s)
      else Next st)"

text \<open>A Start Date line begins a new event, except inside an Incident Report.\<close>

definition ph_start_date :: "(string list \<Rightarrow> string list) \<Rightarrow> string \<Rightarrow> pstate \<Rightarrow> flow" where
  "ph_start_date ord ln st =
     (if starts_with ln ''Start Date'' then
        (if cat_lower st = ''incident report'' then capture ''date'' ln st
         else (case flush_event ord st of Inl e \<Rightarrow> Raise e | Inr s \<Rightarrow> capture ''date'' ln s))
      else Next st)"

text \<open>Lines that are skipped and close the open field.\<close>

definition ph_skip :: "string \<Rightarrow> pstate \<Rightarrow> flow" where
  "ph_skip ln st =
     (if contains ln ''Minute Break'' \<or> contains ln ''Lunch Break'' \<or> contains ln ''Break Details''
      then Done (set_last None st)
      else if contains_any ln [''Totals Activities'', ''Total Activities'', ''Object Duration'',
                               ''Activity Duration'']
      then Done (set_last None st)
      else if py_lower (py_strip ln) = ''close'' then Done (set_last None st)
      else if list_ex (starts_with (py_lower ln))
                [''escalation?'', ''- was the police'', ''- (if so'', ''- upload picture'',
                 ''- call back number'', ''- all persons involved'']
      then Done (set_last None st)
      else Next st)"

text \<open>The content fields that are read from one line.\<close>

definition ph_content :: "string \<Rightarrow> pstate \<Rightarrow> flow" where
  "ph_content ln st =
     (if contains ln ''Security action'' \<or> contains ln ''What are you doing''
         \<or> contains ln ''What did you do''
      then capture ''action'' ln st
      else if starts_with (py_lower ln) ''- description of what happened''
      then capture ''incident_description'' ln st
      else if starts_with (py_lower ln) ''- operator name'' then capture ''operator_name'' ln st
      else if starts_with (py_lower ln) ''- operator #''
              \<or> starts_with (py_lower ln) ''- operator number''
      then capture ''operator_number'' ln st
      else if starts_with (py_lower ln) ''- comments'' then capture ''incident_comments'' ln st
      else Next st)"

definition ph_bare_ts_ir :: "string \<Rightarrow> pstate \<Rightarrow> flow" where
  "ph_bare_ts_ir ln st =
     (if re_matches rx_bare_ts ln \<and> cat_lower st = ''incident report'' then
        Done (if map_of (buffer st) ''start_date'' = None
              then set_field ''date'' (py_strip ln) (set_field ''start_date'' (py_strip ln) st)
              else st)
      else Next st)"

definition ph_start_date_loose :: "string \<Rightarrow> pstate \<Rightarrow> flow" where
  "ph_start_date_loose ln st =
     (if re_found rx_start_date_colon ln then
        (case re_search rx_start_date_loose ln of
           Some (pre, m, c) \<Rightarrow>
             Done (set_last (Some ''date'')
                    (set_field ''date'' (py_strip (grps c 1))
                      (set_field ''start_date'' (py_strip (grps c 1)) st)))
         | None \<Rightarrow> Next st)
      else Next st)"

definition ph_start_date_strict :: "string \<Rightarrow> pstate \<Rightarrow> flow" where
  "ph_start_date_strict ln st =
     (if re_found rx_start_date_colon_b ln then
        (case re_search rx_start_date_val_b ln of
           Some (pre, m, c) \<Rightarrow>
             Done (set_last (Some ''start_date'')
                    (set_field ''date'' (py_strip (grps c 1))
                      (set_field ''start_date'' (py_strip (grps c 1)) st)))
         | None \<Rightarrow> Next st)
      else Next st)"

definition ph_incident_date :: "string \<Rightarrow> pstate \<Rightarrow> flow" where
  "ph_incident_date ln st =
     (if re_found rx_incident_date_key ln then
        (case re_search rx_incident_date_val ln of
           Some (pre, m, c) \<Rightarrow>
             Done (set_last (Some ''incident_date'')
                    (set_field ''incident_date'' (py_strip (grps c 3)) st))
         | None \<Rightarrow> Next st)
      else Next st)"

definition ph_incident_time :: "string \<Rightarrow> pstate \<Rightarrow> flow" where
  "ph_incident_time ln st =
     (if re_found rx_incident_time_key ln then
        (case re_search rx_incident_time_val ln of
           Some (pre, m, c) \<Rightarrow>
             Done (set_last (Some ''incident_time'')
                    (set_field ''incident_time'' (py_strip (grps c 3)) st))
         | None \<Rightarrow> Next st)
      else Next st)"

definition ph_incident_fields :: "string \<Rightarrow> pstate \<Rightarrow> flow" where
  "ph_incident_fields ln st =
     (if starts_with (py_lower ln) ''- incident location'' then capture ''location'' ln st
      else if starts_with (py_lower ln) ''- long description of incident''
      then capture ''incident_description'' ln st
      else Next st)"

text \<open>While the incident description is the open field, every line ends here.\<close>

definition ph_desc_continuation :: "string \<Rightarrow> pstate \<Rightarrow> flow" where
  "ph_desc_continuation ln st =
     (if last_field st = Some ''incident_description'' then
        (if re_matches rx_parties_head (py_strip ln)
         then Done (set_last (Some ''parties_involved'') (set_field ''parties_involved'' [] st))
         else if re_matches rx_desc_stop (py_strip ln) then Done (set_last None st)
         else if re_found rx_page_noise (py_strip ln) then Done st
         else Done (set_field ''incident_description''
                      (py_strip (bget (buffer st) ''incident_description'' [] @ '' '' @ py_strip ln))
                      st))
      else Next st)"

definition ph_parties :: "string \<Rightarrow> pstate \<Rightarrow> flow" where
  "ph_parties ln st =
     (if starts_with (py_lower (py_strip ln)) ''parties involved''
      then Raise (OutsideModel ''scan: parties involved'') else Next st)"

definition ph_vehicle :: "string \<Rightarrow> pstate \<Rightarrow> flow" where
  "ph_vehicle ln st =
     (if starts_with (py_lower ln) ''- year'' then capture_keep ''year'' ln st
      else if starts_with (py_lower ln) ''- make'' then capture_keep ''make'' ln st
      else if starts_with (py_lower ln) ''- model'' then capture_keep ''model'' ln st
      else if starts_with (py_lower ln) ''- color'' then capture_keep ''color'' ln st
      else if starts_with (py_lower ln) ''- description''
      then capture_keep ''vehicle_description'' ln st
      else Next st)"

definition ph_comment :: "string \<Rightarrow> pstate \<Rightarrow> flow" where
  "ph_comment ln st =
     (if starts_with (py_lower ln) ''comments'' then Done (set_last (Some ''comment'') st)
      else (case re_match MULTILINE_RX ln of
              Some (m, c) \<Rightarrow>
                Done (set_last (Some ''comment'') (set_field ''comment'' (py_strip (grps c 1)) st))
            | None \<Rightarrow>
                if ln \<in> set [''Details'', ''Call Details'', ''Date & Time'', ''Date/Time'']
                then Done (set_last None st) else Next st))"

definition ph_company_location :: "string \<Rightarrow> pstate \<Rightarrow> flow" where
  "ph_company_location ln st =
     (if contains ln ''Company'' \<or> contains ln ''Vendor'' then capture ''company'' ln st
      else if (starts_with ln ''Location'' \<or> starts_with ln ''- Location :'')
              \<and> CHR '':'' \<in> set ln
      then capture ''location'' ln st
      else if starts_with ln ''Geolocation'' \<or> contains ln ''LOGBOOK PDF''
      then Done (set_last None st)
      else Next st)"

text \<open>
  A line that starts no block continues the open field, up to 200 characters of a short
  field and 800 of an incident field. (The source repeats the vehicle fields before this
  point; the repetition is never reached.)
\<close>

definition continue_field :: "string \<Rightarrow> nat \<Rightarrow> string \<Rightarrow> pstate \<Rightarrow> pstate" where
  "continue_field f ceiling ln st =
     (if length (bget (buffer st) f []) < ceiling
      then set_field f (py_strip (bget (buffer st) f [] @ '' '' @ ln)) st else st)"

definition ph_continuation :: "string \<Rightarrow> pstate \<Rightarrow> flow" where
  "ph_continuation ln st =
     (case last_field st of
        None \<Rightarrow> Next st
      | Some f \<Rightarrow>
          if f \<in> set [''action'', ''company'', ''location'', ''comment'']
             \<and> \<not> is_new_block_line st ln
          then Done (continue_field f 200 ln st)
          else if f \<in> set [''incident_description'', ''incident_comments'']
                  \<and> \<not> is_new_block_line st ln
          then Done (continue_field f 800 ln st)
          else Next st)"

text \<open>The body of the loop over the lines, for the line \<open>ln\<close> at index \<open>i\<close>.\<close>

definition loop_body ::
    "(string list \<Rightarrow> string list) \<Rightarrow> string list \<Rightarrow> nat \<Rightarrow> string \<Rightarrow> pstate \<Rightarrow> flow" where
  "loop_body ord lines i ln =
     run_phases
       [ph_numbers ln,
        ph_section_start_date ord ''incident report'' ln,
        ph_section_start_date ord ''elevator entrapment incident'' ln,
        ph_who_called ln,
        ph_all_persons ln,
        ph_key_ts ord ln,
        ph_dock_ts ord ln,
        ph_fire_ts ord ln,
        ph_dock_officer lines i ln,
        ph_fire_officer lines i ln,
        ph_aes_officer lines i ln,
        ph_new_activity lines ln,
        ph_spd ln,
        ph_ambassador ln,
        ph_unsecure ln,
        ph_tour ln,
        ph_category ord ln,
        ph_officer_header ln,
        ph_officer_nested ln,
        ph_officer_line ln,
        ph_officer_rx ln,
        ph_normalize,
        ph_new_activity_ir ord ln,
        ph_start_date ord ln,
        ph_skip ln,
        ph_content ln,
        ph_bare_ts_ir ln,
        ph_start_date_loose ln,
        ph_start_date_strict ln,
        ph_incident_date ln,
        ph_incident_time ln,
        ph_incident_fields ln,
        ph_desc_continuation ln,
        ph_parties ln,
        ph_vehicle ln,
        ph_comment ln,
        ph_company_location ln,
        ph_continuation ln]"

text \<open>\<open>for i, ln in enumerate(lines)\<close>: an empty line is skipped.\<close>

fun scan_lines ::
    "(string list \<Rightarrow> string list) \<Rightarrow> string list \<Rightarrow> nat \<Rightarrow> string list \<Rightarrow> pstate \<Rightarrow> error + pstate" where
  "scan_lines ord lines i [] st = Inr st"
| "scan_lines ord lines i (ln # rest) st =
     (if ln = [] then scan_lines ord lines (Suc i) rest st
      else (case loop_body ord lines i ln st of
              Raise e \<Rightarrow> Inl e
            | Done st' \<Rightarrow> scan_lines ord lines (Suc i) rest st'
            | Next st' \<Rightarrow> scan_lines ord lines (Suc i) rest st'))"

text \<open>The state when the loop is over and the last event is flushed.\<close>

definition scan_all :: "(string list \<Rightarrow> string list) \<Rightarrow> string list \<Rightarrow> error + pstate" where
  "scan_all ord lines =
     (case scan_lines ord lines 0 lines init_state of
        Inl e \<Rightarrow> Inl e
      | Inr st \<Rightarrow> if btrue (buffer st) ''date'' then flush_event ord st else Inr st)"

text \<open>A section of the result of a run: \<open>None\<close> when the run raised.\<close>

definition result_section :: "error + report \<Rightarrow> string \<Rightarrow> string list option" where
  "result_section r s = (case r of Inl e \<Rightarrow> None | Inr rep \<Rightarrow> Some (pget rep s))"

definition parse_events :: "(string list \<Rightarrow> string list) \<Rightarrow> string list \<Rightarrow> error + report" where
  "parse_events ord lines =
     (case scan_all ord lines of
        Inl e \<Rightarrow> Inl e
      | Inr st \<Rightarrow> Inr (finalize (parsed st) (transient_count st)))"

section \<open>The runs that the claims are checked on\<close>

text \<open>
  Each input below is a list of lines that the document reader can produce. The set of
  labels is iterated in the order of insertion (\<open>id\<close>) unless said otherwise.
\<close>

definition unclassified_lines :: "string list" where
  "unclassified_lines =
     [''Start Date : 9/1/2025 8:00 AM'',
      ''Security action : walked around'']"

definition scenario_lines :: "string list" where
  "scenario_lines =
     [''Loading Dock Gate'',
      ''TEGEGNE Getachew'',
      ''Start Date : 9/1/2025 8:00 AM'',
      ''Security action : unlocked the gate for ABM'',
      ''Company : ABM'',
      ''9/1/2025 9:00 AM'']"


definition placeholder_date_lines :: "string list" where
  "placeholder_date_lines =
     [''Start Date : None to Report'',
      ''Retail Issues'',
      ''Start Date : 9/2/2025 8:00 AM'',
      ''Retail Issues'',
      ''Start Date : 9/1/2025 8:00 AM'',
      ''Retail Issues'']"

definition two_label_lines :: "string list" where
  "two_label_lines =
     [''Start Date : 9/1/2025 8:00 AM'',
      ''Alarm at loading'',
      ''dock Tenant trespass'']"


definition janitorial_entry :: string where
  "janitorial_entry =
     ''09/01/25 8:00 AM '' @ [en_dash] @
     '' coordinated janitorial services through ABM to address reported cleaning needs on site''"


definition unsorted_retail_lines :: "string list" where
  "unsorted_retail_lines =
     [''Start Date : 9/2/2025 8:00 AM'',
      ''Retail Issues'',
      ''Start Date : 9/1/2025 8:00 AM'',
      ''Retail Issues'']"

text \<open>
  States in which \<open>flush_event\<close> is run on its own: an event with a date and an officer
  only; a Retail Issues event after the Transient Removal tag was seen; an AES Phone Call
  event without an action.
\<close>

definition officer_only_state :: pstate where
  "officer_only_state =
     init_state\<lparr>buffer := [(''date'', ''9/1/2025 8:00 AM''), (''officer'', ''ALI Kassim'')],
                labels := [''Loading Dock Gate'']\<rparr>"

definition tagged_state :: pstate where
  "tagged_state =
     init_state\<lparr>buffer := [(''date'', ''9/1/2025 8:00 AM''), (''category'', ''Retail Issues'')],
                transient_tag_seen := True\<rparr>"



text \<open>The states in which the scans of two of the inputs end.\<close>

definition tagged_retail_final :: pstate where
  "tagged_retail_final =
     init_state\<lparr>parsed := AList.update ''Retail Issues'' [''09/01/25 8:00 AM''] empty_report,
                transient_count := 1, classified := [''Retail Issues'']\<rparr>"


section \<open>Code equations for the character classes\<close>

text \<open>
  The character classes, decided on the bits of a character (least significant first)
  rather than by a search through the alphabet.
\<close>

lemma is_upper_code [code]:
  "is_upper (Char b0 b1 b2 b3 b4 b5 b6 b7) =
     (\<not> b7 \<and> b6 \<and> \<not> b5 \<and> (b0 \<or> b1 \<or> b2 \<or> b3 \<or> b4) \<and> \<not> (b4 \<and> b3 \<and> (b2 \<or> (b1 \<and> b0))))"
  by (cases b0; cases b1; cases b2; cases b3; cases b4; cases b5; cases b6; cases b7;
      simp add: is_upper_def uppers_def)

lemma is_lower_code [code]:
  "is_lower (Char b0 b1 b2 b3 b4 b5 b6 b7) =
     (\<not> b7 \<and> b6 \<and> b5 \<and> (b0 \<or> b1 \<or> b2 \<or> b3 \<or> b4) \<and> \<not> (b4 \<and> b3 \<and> (b2 \<or> (b1 \<and> b0))))"
  by (cases b0; cases b1; cases b2; cases b3; cases b4; cases b5; cases b6; cases b7;
      simp add: is_lower_def lowers_def)

lemma is_digit_code [code]:
  "is_digit (Char b0 b1 b2 b3 b4 b5 b6 b7) =
     (\<not> b7 \<and> \<not> b6 \<and> b5 \<and> b4 \<and> (\<not> b3 \<or> (\<not> b2 \<and> \<not> b1)))"
  by (cases b0; cases b1; cases b2; cases b3; cases b4; cases b5; cases b6; cases b7;
      simp add: is_digit_def digits_def)

lemma is_space_code [code]:
  "is_space (Char b0 b1 b2 b3 b4 b5 b6 b7) =
     (\<not> b7 \<and> \<not> b6 \<and>
      ((\<not> b5 \<and> \<not> b4 \<and> b3 \<and> ((\<not> b2 \<and> (b1 \<or> b0)) \<or> (b2 \<and> \<not> b1)))
       \<or> (\<not> b5 \<and> b4 \<and> b3 \<and> b2)
       \<or> (b5 \<and> \<not> b4 \<and> \<not> b3 \<and> \<not> b2 \<and> \<not> b1 \<and> \<not> b0)))"
  by (cases b0; cases b1; cases b2; cases b3; cases b4; cases b5; cases b6; cases b7;
      simp add: is_space_def)

lemma lower_chr_code [code]:
  "lower_chr (Char b0 b1 b2 b3 b4 b5 b6 b7) =
     (if is_upper (Char b0 b1 b2 b3 b4 b5 b6 b7) then Char b0 b1 b2 b3 b4 True b6 b7
      else Char b0 b1 b2 b3 b4 b5 b6 b7)"
  by (cases b0; cases b1; cases b2; cases b3; cases b4; cases b5; cases b6; cases b7;
      simp add: lower_chr_def is_upper_def uppers_def lowers_def)

lemma upper_chr_code [code]:
  "upper_chr (Char b0 b1 b2 b3 b4 b5 b6 b7) =
     (if is_lower (Char b0 b1 b2 b3 b4 b5 b6 b7) then Char b0 b1 b2 b3 b4 False b6 b7
      else Char b0 b1 b2 b3 b4 b5 b6 b7)"
  by (cases b0; cases b1; cases b2; cases b3; cases b4; cases b5; cases b6; cases b7;
      simp add: upper_chr_def is_lower_def uppers_def lowers_def)

section \<open>Evaluation of the runs\<close>

lemma run_unclassified:
  "parse_events id unclassified_lines = Inl (KeyError ''Unclassified'')"
  by code_simp

lemma run_scenario:
  "parse_events id scenario_lines = Inr
     [
      (''Incident Reports (IR) / Alarms'', [placeholder]),
      (''Elevator Entrapment Incidents'', [placeholder]),
      (''SPD Presence/Emergency Response on Site'', [placeholder]),
      (''Property Damage'', [placeholder]),
      (''Tenant Issues'', [placeholder]),
      (''Retail Issues'', [placeholder]),
      (''Transient Removal'', [placeholder]),
      (''Key Service (Lock & Unlock)'', [placeholder]),
      (''Loading Dock Access (Lock & Unlock)'', [placeholder]),
      (''Fire Panel Bypass/Online'', [placeholder]),
      (''AES Phone Calls'', [placeholder]),
      (''Work Orders'', [placeholder]),
      (''Janitorial'', [janitorial_entry]),
      (''Additional Information'', [placeholder])]"
  by code_simp


lemma run_placeholder_date:
  "parse_events id placeholder_date_lines = Inr
     [
      (''Incident Reports (IR) / Alarms'', [placeholder]),
      (''Elevator Entrapment Incidents'', [placeholder]),
      (''SPD Presence/Emergency Response on Site'', [placeholder]),
      (''Property Damage'', [placeholder]),
      (''Tenant Issues'', [placeholder]),
      (''Retail Issues'', [placeholder, ''09/02/25 8:00 AM'', ''09/01/25 8:00 AM'']),
      (''Transient Removal'', [placeholder]),
      (''Key Service (Lock & Unlock)'', [placeholder]),
      (''Loading Dock Access (Lock & Unlock)'', [placeholder]),
      (''Fire Panel Bypass/Online'', [placeholder]),
      (''AES Phone Calls'', [placeholder]),
      (''Work Orders'', [placeholder]),
      (''Janitorial'', [placeholder]),
      (''Additional Information'', [placeholder])]"
  by code_simp

lemma run_two_labels_id:
  "parse_events id two_label_lines = Inr
     [
      (''Incident Reports (IR) / Alarms'', [placeholder]),
      (''Elevator Entrapment Incidents'', [placeholder]),
      (''SPD Presence/Emergency Response on Site'', [placeholder]),
      (''Property Damage'', [placeholder]),
      (''Tenant Issues'', [placeholder]),
      (''Retail Issues'', [placeholder]),
      (''Transient Removal'', [placeholder]),
      (''Key Service (Lock & Unlock)'', [placeholder]),
      (''Loading Dock Access (Lock & Unlock)'', [''09/01/25 8:00 AM'']),
      (''Fire Panel Bypass/Online'', [placeholder]),
      (''AES Phone Calls'', [placeholder]),
      (''Work Orders'', [placeholder]),
      (''Janitorial'', [placeholder]),
      (''Additional Information'', [placeholder])]"
  by code_simp

lemma run_two_labels_rev:
  "parse_events rev two_label_lines = Inr
     [
      (''Incident Reports (IR) / Alarms'', [placeholder]),
      (''Elevator Entrapment Incidents'', [placeholder]),
      (''SPD Presence/Emergency Response on Site'', [placeholder]),
      (''Property Damage'', [placeholder]),
      (''Tenant Issues'', [placeholder]),
      (''Retail Issues'', [placeholder]),
      (''Transient Removal'', [transient_summary 1]),
      (''Key Service (Lock & Unlock)'', [placeholder]),
      (''Loading Dock Access (Lock & Unlock)'', [placeholder]),
      (''Fire Panel Bypass/Online'', [placeholder]),
      (''AES Phone Calls'', [placeholder]),
      (''Work Orders'', [placeholder]),
      (''Janitorial'', [placeholder]),
      (''Additional Information'', [placeholder])]"
  by code_simp



lemma flush_tagged_state: "flush_event id tagged_state = Inr tagged_retail_final"
  by code_simp



lemma run_unsorted_retail:
  "result_section (parse_events id unsorted_retail_lines) ''Retail Issues''
     = Some [''09/01/25 8:00 AM'', ''09/02/25 8:00 AM'']"
  by code_simp

lemma placeholder_date_keys:
  "map extract_dt [placeholder, ''09/02/25 8:00 AM'', ''09/01/25 8:00 AM''] =
     [datetime_max, (2025, 9, 2, 8, 0, 0, 0), (2025, 9, 1, 8, 0, 0, 0)]"
  by code_simp



section \<open>Lemmas on association lists and the aggregator\<close>


lemma btrue_bput: "btrue (bput b k v) k' = (if k' = k then v \<noteq> [] else btrue b k')"
  by (simp add: btrue_def bput_def update_conv')

lemma pget_update: "pget (AList.update k v p) s = (if s = k then v else pget p s)"
  by (simp add: pget_def update_conv')

lemma pget_foldl_update:
  "distinct ks \<Longrightarrow>
   pget (foldl (\<lambda>p s. if c (pget p s) then AList.update s (g (pget p s)) p else p) p0 ks) s =
     (if s \<in> set ks \<and> c (pget p0 s) then g (pget p0 s) else pget p0 s)"
proof (induction ks arbitrary: p0)
  case Nil
  then show ?case by simp
next
  case (Cons k ks)
  then show ?case by (auto simp: pget_update)
qed

lemma distinct_SECTIONS: "distinct SECTIONS"
  by (simp add: SECTIONS_def)

lemma transient_in_SECTIONS: "''Transient Removal'' \<in> set SECTIONS"
  by (simp add: SECTIONS_def)

lemma pget_fill_placeholders:
  "pget (fill_placeholders p) s =
     (if s \<in> set SECTIONS \<and> pget p s = [] then [placeholder] else pget p s)"
  unfolding fill_placeholders_def
  using pget_foldl_update [OF distinct_SECTIONS, of "\<lambda>l. l = []" "\<lambda>l. [placeholder]" p s]
  by simp

lemma pget_sort_sections:
  "pget (sort_sections p) s =
     (if s \<in> set SECTIONS \<and> pget p s \<noteq> [] \<and> hd (pget p s) \<noteq> placeholder
      then sort_key extract_dt (pget p s) else pget p s)"
  unfolding sort_sections_def
  using pget_foldl_update [OF distinct_SECTIONS,
          of "\<lambda>l. l \<noteq> [] \<and> hd l \<noteq> placeholder" "sort_key extract_dt" p s]
  by simp

lemma transient_summary_not_placeholder: "transient_summary n \<noteq> placeholder"
  by (simp add: transient_summary_def placeholder_def)

lemma pget_finalize:
  "pget (finalize p n) s =
     (if s = ''Transient Removal''
      then (if 0 < n then [transient_summary n] else [placeholder])
      else if s \<in> set SECTIONS
      then (if pget p s = [] then [placeholder]
            else if hd (pget p s) = placeholder then pget p s
            else sort_key extract_dt (pget p s))
      else pget p s)"
  by (simp add: finalize_def pget_sort_sections collapse_transient_def pget_update
      pget_fill_placeholders transient_summary_not_placeholder transient_in_SECTIONS
      placeholder_def)

text \<open>No timestamp reaches \<open>datetime.max\<close>.\<close>

lemma strptime_line_lt_max: "strptime_line c = Some dt \<Longrightarrow> dt < datetime_max"
  by (auto simp: strptime_line_def Let_def datetime_max_def less_prod_def split: if_splits)

lemma extract_dt_le_max: "extract_dt e \<le> datetime_max"
proof (cases "re_match rx_line_dt e")
  case None
  then show ?thesis by (simp add: extract_dt_def)
next
  case (Some mc)
  obtain m c where mc: "mc = (m, c)" by (cases mc)
  show ?thesis
  proof (cases "strptime_line c")
    case None
    with Some mc show ?thesis by (simp add: extract_dt_def)
  next
    case (Some dt)
    with \<open>re_match rx_line_dt e = Some mc\<close> mc have "extract_dt e = dt"
      by (simp add: extract_dt_def)
    with strptime_line_lt_max [OF Some] show ?thesis by (simp add: less_imp_le)
  qed
qed



text \<open>What the final passes do to a section whose first entry is not the placeholder.\<close>

lemma finalize_sorts_section:
  assumes "s \<in> set SECTIONS" and "s \<noteq> ''Transient Removal''"
      and "pget p s \<noteq> []" and "hd (pget p s) \<noteq> placeholder"
  shows "pget (finalize p n) s = sort_key extract_dt (pget p s)"
    and "sorted (map extract_dt (pget (finalize p n) s))"
    and "filter (\<lambda>e. extract_dt e = k) (pget (finalize p n) s)
           = filter (\<lambda>e. extract_dt e = k) (pget p s)"
proof -
  show r: "pget (finalize p n) s = sort_key extract_dt (pget p s)"
    using assms by (simp add: pget_finalize)
  show "sorted (map extract_dt (pget (finalize p n) s))"
    by (simp add: r)
  show "filter (\<lambda>e. extract_dt e = k) (pget (finalize p n) s)
           = filter (\<lambda>e. extract_dt e = k) (pget p s)"
    by (simp add: r sort_key_stable)
qed



section \<open>Lemmas on \<open>flush_event\<close>\<close>






section \<open>Lemmas on strings and on the line of an event\<close>



















section \<open>Properties of the classifier\<close>

text \<open>
  Claim C7. A buffer that reaches the heuristic layer (no rule of the explicit-tag layer
  matched), whose text holds the word "incident" but none of the strong signals (the phrase
  "incident report", a numbered \<open>ir #N\<close> or \<open>incident #N\<close>, or one of police, 911, injury,
  assault, theft, robbery), is never classified as Incident Reports (IR) / Alarms.
\<close>

theorem classify_generic_incident_not_IR:
  assumes "classify_explicit b = None"
      and "contains (classify_text b ls) ''incident''"
      and "\<not> strong_ir_signal (classify_text b ls)"
  shows "classify b ls \<noteq> ''Incident Reports (IR) / Alarms''"
  using assms(1,3) by (simp add: classify_def classify_heuristic_def Let_def)

theorem classify_generic_incident_not_IR_witness:
  "classify_explicit [(''action'', ''minor incident in lobby'')] = None
   \<and> contains (classify_text [(''action'', ''minor incident in lobby'')] []) ''incident''
   \<and> \<not> strong_ir_signal (classify_text [(''action'', ''minor incident in lobby'')] [])
   \<and> classify [(''action'', ''minor incident in lobby'')] [] = ''Unclassified''
   \<and> classify [(''action'', ''minor incident in lobby'')] [] \<noteq> ''Incident Reports (IR) / Alarms''"
proof -
  have h1: "classify_explicit [(''action'', ''minor incident in lobby'')] = None"
    by code_simp
  have h2: "contains (classify_text [(''action'', ''minor incident in lobby'')] []) ''incident''"
    by code_simp
  have h3: "\<not> strong_ir_signal (classify_text [(''action'', ''minor incident in lobby'')] [])"
    by code_simp
  have h4: "classify [(''action'', ''minor incident in lobby'')] [] = ''Unclassified''"
    by code_simp
  show ?thesis
    using h1 h2 h3 h4 classify_generic_incident_not_IR [OF h1 h2 h3] by simp
qed

lemma re_del_officer_prefix_nil: "re_del rx_officer_prefix [] = []"
  by code_simp

section \<open>Properties of officer-name normalization\<close>

text \<open>
  Claim C8. For a name of two tokens, \<open>bold_officer\<close> swaps the tokens when the first is all
  upper case and the second starts upper case and goes on in lower case, and capitalizes
  both tokens in either case; "TEGEGNE Getachew" gives the officer name "Getachew Tegegne"
  and "Faiz Mohmand" stays "Faiz Mohmand". (The tokens of \<open>str.split\<close> are never empty, so
  \<open>second[0]\<close> is the first character of \<open>second\<close>.)
\<close>

theorem bold_officer_normalizes:
  "(py_split (re_del rx_officer_prefix (py_strip name)) = [first, second] \<longrightarrow>
      bold_officer name =
        ''<b>Officer '' @
        (if py_isupper first \<and> py_isupper (take 1 second) \<and> py_islower (drop 1 second)
         then py_capitalize second @ '' '' @ py_capitalize first
         else py_capitalize first @ '' '' @ py_capitalize second) @ ''</b>'')
   \<and> bold_officer ''TEGEGNE Getachew'' = ''<b>Officer Getachew Tegegne</b>''
   \<and> bold_officer ''Faiz Mohmand'' = ''<b>Officer Faiz Mohmand</b>''"
proof (intro conjI impI)
  assume sp: "py_split (re_del rx_officer_prefix (py_strip name)) = [first, second]"
  have "py_strip name \<noteq> []"
  proof
    assume "py_strip name = []"
    with sp have "py_split [] = [first, second]"
      by (simp add: re_del_officer_prefix_nil)
    then show False by (simp add: py_split_def)
  qed
  with sp show "bold_officer name =
        ''<b>Officer '' @
        (if py_isupper first \<and> py_isupper (take 1 second) \<and> py_islower (drop 1 second)
         then py_capitalize second @ '' '' @ py_capitalize first
         else py_capitalize first @ '' '' @ py_capitalize second) @ ''</b>''"
    by (simp add: bold_officer_def officer_name_def Let_def)
next
  show "bold_officer ''TEGEGNE Getachew'' = ''<b>Officer Getachew Tegegne</b>''"
    by code_simp
next
  show "bold_officer ''Faiz Mohmand'' = ''<b>Officer Faiz Mohmand</b>''"
    by code_simp
qed

theorem bold_officer_normalizes_witness:
  "py_split (re_del rx_officer_prefix (py_strip ''ALI Kassim'')) = [''ALI'', ''Kassim'']
   \<and> bold_officer ''ALI Kassim'' = ''<b>Officer Kassim Ali</b>''"
proof -
  have h: "py_split (re_del rx_officer_prefix (py_strip ''ALI Kassim'')) = [''ALI'', ''Kassim'']"
    by code_simp
  have c: "(if py_isupper ''ALI'' \<and> py_isupper (take 1 ''Kassim'') \<and> py_islower (drop 1 ''Kassim'')
         then py_capitalize ''Kassim'' @ '' '' @ py_capitalize ''ALI''
         else py_capitalize ''ALI'' @ '' '' @ py_capitalize ''Kassim'') = ''Kassim Ali''"
    by code_simp
  from bold_officer_normalizes [of "''ALI Kassim''" "''ALI''" "''Kassim''"] h
  have "bold_officer ''ALI Kassim'' = ''<b>Officer '' @
        (if py_isupper ''ALI'' \<and> py_isupper (take 1 ''Kassim'') \<and> py_islower (drop 1 ''Kassim'')
         then py_capitalize ''Kassim'' @ '' '' @ py_capitalize ''ALI''
         else py_capitalize ''ALI'' @ '' '' @ py_capitalize ''Kassim'') @ ''</b>''"
    by blast
  with c h show ?thesis by simp
qed

section \<open>Exceptions and the Unclassified label\<close>

text \<open>
  Claim C1 says that \<open>parse_events\<close> never raises and that a buffer classified as
  Unclassified is dropped in silence. On the two lines of \<open>unclassified_lines\<close> the one
  event has an action that no rule knows, \<open>classify\<close> answers Unclassified, the last branch
  of \<open>flush_event\<close> appends the line under that name, which is no key of the report, and
  Python raises \<open>KeyError\<close>.
\<close>

theorem unclassified_event_raises_KeyError:
  "classify [(''date'', ''9/1/2025 8:00 AM''), (''action'', ''walked around'')] [] = ''Unclassified''
   \<and> ''Unclassified'' \<notin> set SECTIONS
   \<and> parse_events id unclassified_lines = Inl (KeyError ''Unclassified'')"
proof -
  have "classify [(''date'', ''9/1/2025 8:00 AM''), (''action'', ''walked around'')] [] = ''Unclassified''"
    by code_simp
  moreover have "''Unclassified'' \<notin> set SECTIONS"
    by (simp add: SECTIONS_def)
  ultimately show ?thesis
    using run_unclassified by simp
qed

section \<open>Determinism and the order of the label set\<close>

text \<open>
  Claim C5 says that two runs over the same lines give the same report. The text that the
  heuristic layer of \<open>classify\<close> tests joins the elements of the set \<open>labels\<close> in the order
  of iteration, which for a Python set of strings changes with the hash seed of the
  process. On \<open>two_label_lines\<close> the event has two labels: in one order their join holds
  "loading dock" and the event goes to Loading Dock Access, in the other it does not and
  the event goes to Transient Removal.
\<close>

theorem label_order_changes_report:
  "result_section (parse_events id two_label_lines) ''Loading Dock Access (Lock & Unlock)''
     = Some [''09/01/25 8:00 AM'']
   \<and> result_section (parse_events rev two_label_lines) ''Loading Dock Access (Lock & Unlock)''
     = Some [placeholder]
   \<and> result_section (parse_events id two_label_lines) ''Transient Removal'' = Some [placeholder]
   \<and> result_section (parse_events rev two_label_lines) ''Transient Removal''
     = Some [transient_summary 1]"
  by (simp add: run_two_labels_id run_two_labels_rev result_section_def pget_def)

section \<open>The end-to-end scenario\<close>

text \<open>
  Claim C6, as stated, fails: on the six lines of the scenario the Loading Dock category
  holds the placeholder only, which names no officer.
\<close>

theorem scenario_loading_dock_is_placeholder:
  "result_section (parse_events id scenario_lines) ''Loading Dock Access (Lock & Unlock)''
     = Some [''None to Report'']
   \<and> \<not> contains ''None to Report'' ''Getachew Tegegne''"
proof -
  have "\<not> contains ''None to Report'' ''Getachew Tegegne''"
    by code_simp
  then show ?thesis
    by (simp add: run_scenario result_section_def pget_def placeholder_def)
qed

text \<open>
  Claim C6, amended. On the six lines of the scenario: the first Start Date line flushes
  the buffer that holds the Loading Dock Gate label only, which yields no entry and clears
  the label; the name line is not read as an officer; the action and the company form one
  event without category, which the heuristic layer classifies as Janitorial by the word
  "abm"; the trailing timestamp adds nothing. The report holds one entry, under Janitorial,
  and the placeholder everywhere else.
\<close>

theorem scenario_report:
  "parse_events id scenario_lines = Inr
     [(''Incident Reports (IR) / Alarms'', [''None to Report'']),
      (''Elevator Entrapment Incidents'', [''None to Report'']),
      (''SPD Presence/Emergency Response on Site'', [''None to Report'']),
      (''Property Damage'', [''None to Report'']),
      (''Tenant Issues'', [''None to Report'']),
      (''Retail Issues'', [''None to Report'']),
      (''Transient Removal'', [''None to Report'']),
      (''Key Service (Lock & Unlock)'', [''None to Report'']),
      (''Loading Dock Access (Lock & Unlock)'', [''None to Report'']),
      (''Fire Panel Bypass/Online'', [''None to Report'']),
      (''AES Phone Calls'', [''None to Report'']),
      (''Work Orders'', [''None to Report'']),
      (''Janitorial'',
         [''09/01/25 8:00 AM '' @ [en_dash] @
          '' coordinated janitorial services through ABM to address reported cleaning needs on site'']),
      (''Additional Information'', [''None to Report''])]"
  by (simp add: run_scenario placeholder_def janitorial_entry_def)

section \<open>The empty-buffer rule\<close>

text \<open>
  Claim C2. A buffer in which none of the fields \<open>action\<close>, \<open>incident_description\<close>,
  \<open>incident_comments\<close> and \<open>category\<close> is present with a non-empty value, so in particular a
  buffer that lacks the four, yields no entry: \<open>flush_event\<close> returns, the report and the
  transient counter are what they were, and the buffer is cleared.
\<close>

theorem flush_event_discards_empty_buffer:
  assumes "\<not> btrue (buffer st) ''action''"
      and "\<not> btrue (buffer st) ''incident_description''"
      and "\<not> btrue (buffer st) ''incident_comments''"
      and "\<not> btrue (buffer st) ''category''"
  shows "\<exists>st'. flush_event ord st = Inr st' \<and> parsed st' = parsed st
           \<and> transient_count st' = transient_count st \<and> classified st' = classified st
           \<and> buffer st' = [] \<and> last_field st' = None"
  using assms by (simp add: flush_event_def nothing_to_flush_def)

theorem flush_event_discards_empty_buffer_witness:
  "\<not> btrue (buffer officer_only_state) ''action''
   \<and> \<not> btrue (buffer officer_only_state) ''incident_description''
   \<and> \<not> btrue (buffer officer_only_state) ''incident_comments''
   \<and> \<not> btrue (buffer officer_only_state) ''category''
   \<and> buffer officer_only_state \<noteq> []
   \<and> map_sum id parsed (flush_event id officer_only_state) = Inr empty_report"
proof -
  have h: "\<not> btrue (buffer officer_only_state) ''action''"
      "\<not> btrue (buffer officer_only_state) ''incident_description''"
      "\<not> btrue (buffer officer_only_state) ''incident_comments''"
      "\<not> btrue (buffer officer_only_state) ''category''"
    by (simp_all add: officer_only_state_def btrue_def)
  have p: "parsed officer_only_state = empty_report" "buffer officer_only_state \<noteq> []"
    by (simp_all add: officer_only_state_def init_state_def)
  from flush_event_discards_empty_buffer [OF h, of id]
  obtain st' where "flush_event id officer_only_state = Inr st'"
      and "parsed st' = parsed officer_only_state"
    by blast
  with h p show ?thesis by simp
qed

section \<open>The transient counter\<close>




section \<open>The order of the entries of a section\<close>

text \<open>
  Claim C4 says that in every category with two or more entries the timestamps do not
  decrease and the entries without a timestamp come last. The final pass sorts a section
  only when its first entry differs from the text "None to Report"; the test is there for
  a section that holds the placeholder alone, but an event whose date field is that text
  yields the same entry. On \<open>placeholder_date_lines\<close> the Retail Issues category ends with
  three entries in the order of the scan: the one without a timestamp first, then 09/02,
  then 09/01. Without the first event (\<open>unsorted_retail_lines\<close>) the other two are sorted.
\<close>

theorem placeholder_entry_blocks_sort:
  "result_section (parse_events id placeholder_date_lines) ''Retail Issues''
     = Some [''None to Report'', ''09/02/25 8:00 AM'', ''09/01/25 8:00 AM'']
   \<and> map extract_dt [''None to Report'', ''09/02/25 8:00 AM'', ''09/01/25 8:00 AM'']
     = [datetime_max, (2025, 9, 2, 8, 0, 0, 0), (2025, 9, 1, 8, 0, 0, 0)]
   \<and> \<not> sorted (map extract_dt [''None to Report'', ''09/02/25 8:00 AM'', ''09/01/25 8:00 AM''])
   \<and> result_section (parse_events id unsorted_retail_lines) ''Retail Issues''
     = Some [''09/01/25 8:00 AM'', ''09/02/25 8:00 AM'']"
proof -
  have k: "map extract_dt [''None to Report'', ''09/02/25 8:00 AM'', ''09/01/25 8:00 AM'']
     = [datetime_max, (2025, 9, 2, 8, 0, 0, 0), (2025, 9, 1, 8, 0, 0, 0)]"
    using placeholder_date_keys by (simp add: placeholder_def)
  have u: "\<not> sorted [datetime_max, (2025, 9, 2, 8, 0, 0, 0), (2025, 9, 1, 8, 0, 0, 0)]"
    by (simp add: datetime_max_def less_eq_prod_def)
  have r: "result_section (parse_events id placeholder_date_lines) ''Retail Issues''
             = Some [''None to Report'', ''09/02/25 8:00 AM'', ''09/01/25 8:00 AM'']"
    by (simp add: run_placeholder_date result_section_def pget_def placeholder_def)
  have "\<not> sorted (map extract_dt
                 [''None to Report'', ''09/02/25 8:00 AM'', ''09/01/25 8:00 AM''])"
    unfolding k by (rule u)
  with k r run_unsorted_retail show ?thesis
    by blast
qed

section \<open>Repeated entries\<close>




section \<open>The default action of an AES phone call\<close>



end
